theory Spec2Isabelle
  imports Main "HOL-Library.Word"
begin

unbundle bit_operations_syntax

section \<open>Bytes, strings and errors\<close>

text \<open>
  A Go \<^verbatim>\<open>[]byte\<close> is a list of 8-bit words; a Go \<^verbatim>\<open>string\<close> is a list of
  characters (bytes).  A Go \<^verbatim>\<open>error\<close> made by \<^verbatim>\<open>errors.New\<close> is its message.
\<close>

type_synonym byte = "8 word"
type_synonym bytes = "byte list"

datatype go_error = errors_New string

section \<open>encoding/hex: \<^verbatim>\<open>hex.DecodeString\<close> and \<^verbatim>\<open>hex.EncodeToString\<close>\<close>

text \<open>
  \<^verbatim>\<open>fromHexChar\<close> of the standard library: digits, lower-case and upper-case letters
  are accepted, everything else is an invalid byte.
\<close>

definition fromHexChar :: "char \<Rightarrow> byte option" where
  "fromHexChar c =
     (let n = (of_char c :: nat) in
      if 48 \<le> n \<and> n \<le> 57 then Some (of_nat (n - 48))
      else if 97 \<le> n \<and> n \<le> 102 then Some (of_nat (n - 97 + 10))
      else if 65 \<le> n \<and> n \<le> 70 then Some (of_nat (n - 65 + 10))
      else None)"

definition hex_InvalidByteError :: "char \<Rightarrow> go_error" where
  "hex_InvalidByteError c = errors_New (''encoding/hex: invalid byte: '' @ [c])"

definition hex_ErrLength :: go_error where
  "hex_ErrLength = errors_New ''encoding/hex: odd length hex string''"

text \<open>
  \<^verbatim>\<open>hex.Decode\<close> walks the source two characters at a time; a lone last character is
  first checked for validity and then reported as a bad length.
\<close>

fun hex_DecodeString :: "string \<Rightarrow> go_error + bytes" where
  "hex_DecodeString [] = Inr []"
| "hex_DecodeString [p] =
     (case fromHexChar p of
        None \<Rightarrow> Inl (hex_InvalidByteError p)
      | Some _ \<Rightarrow> Inl hex_ErrLength)"
| "hex_DecodeString (p # q # src) =
     (case fromHexChar p of
        None \<Rightarrow> Inl (hex_InvalidByteError p)
      | Some a \<Rightarrow>
          (case fromHexChar q of
             None \<Rightarrow> Inl (hex_InvalidByteError q)
           | Some b \<Rightarrow>
               (case hex_DecodeString src of
                  Inl err \<Rightarrow> Inl err
                | Inr dst \<Rightarrow> Inr ((push_bit 4 a OR b) # dst))))"

definition hextable :: string where
  "hextable = ''0123456789abcdef''"

fun hex_EncodeToString :: "bytes \<Rightarrow> string" where
  "hex_EncodeToString [] = []"
| "hex_EncodeToString (v # src) =
     hextable ! unat (drop_bit 4 v) # hextable ! unat (v AND 0x0f) # hex_EncodeToString src"

section \<open>encoding/base64: \<^verbatim>\<open>base64.StdEncoding.EncodeToString\<close>\<close>

definition encodeStd :: string where
  "encodeStd = ''ABCDEFGHIJKLMNOPQRSTUVWXYZabcdefghijklmnopqrstuvwxyz0123456789+/''"

definition b64_digit :: "32 word \<Rightarrow> nat \<Rightarrow> char" where
  "b64_digit val sh = encodeStd ! unat (drop_bit sh val AND 0x3F)"

text \<open>
  Three source bytes make one 24-bit value and four digits; a remainder of one or two
  bytes is padded with \<^verbatim>\<open>=\<close>.
\<close>

fun base64_StdEncoding_EncodeToString :: "bytes \<Rightarrow> string" where
  "base64_StdEncoding_EncodeToString (s0 # s1 # s2 # src) =
     (let val = push_bit 16 (ucast s0) OR push_bit 8 (ucast s1) OR ucast s2
      in b64_digit val 18 # b64_digit val 12 # b64_digit val 6 # b64_digit val 0
         # base64_StdEncoding_EncodeToString src)"
| "base64_StdEncoding_EncodeToString [s0, s1] =
     (let val = push_bit 16 (ucast s0) OR push_bit 8 (ucast s1)
      in [b64_digit val 18, b64_digit val 12, b64_digit val 6, CHR ''=''])"
| "base64_StdEncoding_EncodeToString [s0] =
     (let val = push_bit 16 (ucast s0)
      in [b64_digit val 18, b64_digit val 12, CHR ''='', CHR ''=''])"
| "base64_StdEncoding_EncodeToString [] = []"

section \<open>regexp: matching \<^verbatim>\<open>nonceRegExp\<close>\<close>

definition nonceLen :: nat where
  "nonceLen = 40"

text \<open>The character class \<^verbatim>\<open>[a-f0-9]\<close>.\<close>

definition class_af09 :: "char \<Rightarrow> bool" where
  "class_af09 c =
     (let n = (of_char c :: nat) in (97 \<le> n \<and> n \<le> 102) \<or> (48 \<le> n \<and> n \<le> 57))"

text \<open>
  \<^verbatim>\<open>[a-f0-9]{n}\<close> matched at the start of the input: the next \<open>n\<close> characters are
  all in the class.
\<close>

fun match_here :: "nat \<Rightarrow> string \<Rightarrow> bool" where
  "match_here 0 s = True"
| "match_here (Suc n) [] = False"
| "match_here (Suc n) (c # s) = (class_af09 c \<and> match_here n s)"

text \<open>
  \<^verbatim>\<open>regexp.MatchString(pattern, s)\<close> reports whether \<^verbatim>\<open>s\<close> \<^emph>\<open>contains\<close> a match
  of the pattern.  \<^verbatim>\<open>nonceRegExp\<close> is \<^verbatim>\<open>[a-f0-9]{40}\<close>, with no \<^verbatim>\<open>^\<close> and no
  \<^verbatim>\<open>$\<close>, so the match is tried at every position of the input.
\<close>

fun regexp_MatchString :: "nat \<Rightarrow> string \<Rightarrow> bool" where
  "regexp_MatchString n [] = match_here n []"
| "regexp_MatchString n (c # s) = (match_here n (c # s) \<or> regexp_MatchString n s)"

definition nonceRegExp_matches :: "string \<Rightarrow> bool" where
  "nonceRegExp_matches nonce = regexp_MatchString nonceLen nonce"

section \<open>net/http: requests and the response writer\<close>

text \<open>
  Of a request the handler reads the method, the outcome of \<^verbatim>\<open>r.ParseForm()\<close> and
  the query values of the URL (\<^verbatim>\<open>url.Values\<close>, a map from a key to its values).
\<close>

record http_Request =
  Method :: string
  ParseForm :: "go_error option"
  URL_Query :: "string \<rightharpoonup> string list"

definition Values_Get :: "(string \<rightharpoonup> string list) \<Rightarrow> string \<Rightarrow> string" where
  "Values_Get v key =
     (case v key of None \<Rightarrow> [] | Some [] \<Rightarrow> [] | Some (x # _) \<Rightarrow> x)"

text \<open>
  The response writer holds the status line once it is written and the body so far.
  A first write without a status writes 200.
\<close>

record http_ResponseWriter =
  status :: "nat option"
  body :: string

definition new_ResponseWriter :: http_ResponseWriter where
  "new_ResponseWriter = \<lparr>status = None, body = []\<rparr>"

definition WriteHeader :: "nat \<Rightarrow> http_ResponseWriter \<Rightarrow> http_ResponseWriter" where
  "WriteHeader code w = (case status w of None \<Rightarrow> w\<lparr>status := Some code\<rparr> | Some _ \<Rightarrow> w)"

definition fmt_Fprintln :: "http_ResponseWriter \<Rightarrow> string \<Rightarrow> http_ResponseWriter" where
  "fmt_Fprintln w s = (let w' = WriteHeader 200 w in w'\<lparr>body := body w' @ s @ [CHR 0x0A]\<rparr>)"

definition http_Error :: "http_ResponseWriter \<Rightarrow> string \<Rightarrow> nat \<Rightarrow> http_ResponseWriter" where
  "http_Error w err code = fmt_Fprintln (WriteHeader code w) err"

definition http_MethodGet :: string where "http_MethodGet = ''GET''"
definition http_StatusMethodNotAllowed :: nat where "http_StatusMethodNotAllowed = 405"
definition http_StatusBadRequest :: nat where "http_StatusBadRequest = 400"
definition http_StatusInternalServerError :: nat where "http_StatusInternalServerError = 500"

section \<open>The NSM device\<close>

text \<open>
  \<^verbatim>\<open>request.Attestation\<close> and \<^verbatim>\<open>response.Response\<close> of the driver.  The response
  holds an error code (a string, empty when there is none) and a pointer to an
  attestation, which holds the document; both the pointer and the document can be nil.
\<close>

record request_Attestation =
  Nonce :: bytes
  UserData :: bytes
  PublicKey :: bytes

record response_Attestation =
  Document :: "bytes option"

record response_Response =
  Error :: string
  Attestation :: "response_Attestation option"

text \<open>
  What the process does to the outside world is kept as a trace of events: the calls to
  the driver and the lines printed by \<^verbatim>\<open>log.Printf\<close>.
\<close>

datatype event =
    EvOpenDefaultSession
  | EvSend request_Attestation
  | EvClose
  | EvLogPrintf string

text \<open>
  The driver is a parameter: each of its three operations answers as a function of
  everything that happened before, so that successive calls may answer differently.
\<close>

record nsm =
  nsm_OpenDefaultSession :: "event list \<Rightarrow> go_error option"
  nsm_Send :: "event list \<Rightarrow> request_Attestation \<Rightarrow> response_Response \<times> go_error option"
  nsm_Close :: "event list \<Rightarrow> go_error option"

section \<open>attest\<close>

definition go_error_string :: "go_error \<Rightarrow> string" where
  "go_error_string e = (case e of errors_New s \<Rightarrow> s)"

definition errNoAttestation :: go_error where
  "errNoAttestation = errors_New ''NSM device did not return an attestation''"

text \<open>
  The part of \<^verbatim>\<open>attest\<close> after the session is open and before the deferred close:
  the request is sent, the error returned by \<^verbatim>\<open>Send\<close> is dropped, and the response
  alone decides the result.
\<close>

definition attest_send ::
  "nsm \<Rightarrow> bytes \<Rightarrow> bytes \<Rightarrow> bytes \<Rightarrow> event list \<Rightarrow> (go_error + bytes) \<times> event list" where
  "attest_send dev nonce userData publicKey tr =
     (let req = \<lparr>Nonce = nonce, UserData = userData, PublicKey = []\<rparr>;
          (res, _) = nsm_Send dev tr req;
          tr' = tr @ [EvSend req]
      in if Error res \<noteq> [] then (Inl (errors_New (Error res)), tr')
         else (case Attestation res of
                 None \<Rightarrow> (Inl errNoAttestation, tr')
               | Some a \<Rightarrow>
                   (case Document a of
                      None \<Rightarrow> (Inl errNoAttestation, tr')
                    | Some doc \<Rightarrow> (Inr doc, tr'))))"

text \<open>
  The deferred function: the session is closed, and a failure to close is printed.  It
  assigns the local variable \<^verbatim>\<open>err\<close>, which is not a result of \<^verbatim>\<open>attest\<close>.
\<close>

definition attest_deferred :: "nsm \<Rightarrow> event list \<Rightarrow> event list" where
  "attest_deferred dev tr =
     (case nsm_Close dev tr of
        None \<Rightarrow> tr @ [EvClose]
      | Some err \<Rightarrow>
          tr @ [EvClose,
                EvLogPrintf (''Failed to close default NSM session: '' @ go_error_string err)])"

definition attest ::
  "nsm \<Rightarrow> bytes \<Rightarrow> bytes \<Rightarrow> bytes \<Rightarrow> event list \<Rightarrow> (go_error + bytes) \<times> event list" where
  "attest dev nonce userData publicKey tr =
     (case nsm_OpenDefaultSession dev tr of
        Some err \<Rightarrow> (Inl err, tr @ [EvOpenDefaultSession])
      | None \<Rightarrow>
          (let (result, tr') =
                 attest_send dev nonce userData publicKey (tr @ [EvOpenDefaultSession])
           in (result, attest_deferred dev tr')))"

section \<open>getAttestationHandler\<close>

definition errMethodNotGET :: string where
  "errMethodNotGET = ''only HTTP GET requests are allowed''"

definition errBadForm :: string where
  "errBadForm = ''failed to parse POST form data''"

definition errNoNonce :: string where
  "errNoNonce = ''could not find nonce in URL query parameters''"

text \<open>\<^verbatim>\<open>fmt.Sprintf("unexpected nonce format; must be %d-digit hex string", nonceLen)\<close>\<close>

definition errBadNonceFormat :: string where
  "errBadNonceFormat = ''unexpected nonce format; must be 40-digit hex string''"

definition errFailedAttestation :: string where
  "errFailedAttestation = ''failed to obtain attestation document from hypervisor''"

type_synonym http_HandlerFunc =
  "http_ResponseWriter \<Rightarrow> http_Request \<Rightarrow> event list \<Rightarrow> http_ResponseWriter \<times> event list"

text \<open>
  The handler closes over the driver and over \<^verbatim>\<open>certHash\<close>, which it receives by
  value.  The branches are those of the source, in its order.
\<close>

definition getAttestationHandler :: "nsm \<Rightarrow> bytes \<Rightarrow> http_HandlerFunc" where
  "getAttestationHandler dev certHash w r tr =
     (if Method r \<noteq> http_MethodGet then
        (http_Error w errMethodNotGET http_StatusMethodNotAllowed, tr)
      else if ParseForm r \<noteq> None then
        (http_Error w errBadForm http_StatusBadRequest, tr)
      else
        (let nonce = Values_Get (URL_Query r) ''nonce'' in
         if nonce = [] then
           (http_Error w errNoNonce http_StatusBadRequest, tr)
         else if \<not> nonceRegExp_matches nonce then
           (http_Error w errBadNonceFormat http_StatusBadRequest, tr)
         else
           (case hex_DecodeString nonce of
              Inl err \<Rightarrow> (http_Error w errBadNonceFormat http_StatusBadRequest, tr)
            | Inr rawNonce \<Rightarrow>
                (case attest dev rawNonce certHash [] tr of
                   (Inl err, tr') \<Rightarrow>
                     (http_Error w errFailedAttestation http_StatusInternalServerError, tr')
                 | (Inr rawDoc, tr') \<Rightarrow>
                     (fmt_Fprintln w (base64_StdEncoding_EncodeToString rawDoc), tr')))))"

section \<open>Certificates and the standard library around them\<close>

record pem_Block =
  Type :: string
  Bytes :: bytes

text \<open>Of a parsed certificate the enclave reads the DER bytes and the CA flag.\<close>

record x509_Certificate =
  Raw :: bytes
  IsCA :: bool

text \<open>
  \<^verbatim>\<open>pem.Decode\<close>, \<^verbatim>\<open>x509.ParseCertificate\<close> and \<^verbatim>\<open>sha256.Sum256\<close> belong to the
  standard library; they are parameters of the model.  \<^verbatim>\<open>pem.Decode\<close> returns the
  next block, if it finds one, and the rest of the input.
\<close>

record crypto =
  pem_Decode :: "bytes \<Rightarrow> pem_Block option \<times> bytes"
  x509_ParseCertificate :: "bytes \<Rightarrow> go_error + x509_Certificate"
  sha256_Sum256 :: "bytes \<Rightarrow> bytes"

section \<open>The enclave\<close>

record Config =
  SOCKSProxy :: string
  FQDN :: string
  Port :: nat
  UseACME :: bool
  Debug :: bool

record tls_Certificate =
  Certificate :: "bytes list"
  PrivateKey :: bytes

text \<open>
  A TLS configuration either holds its certificates or asks the certificate manager
  (\<^verbatim>\<open>autocert.Manager\<close>, for the listed hosts) at every handshake.
\<close>

datatype tls_Config =
    Certificates "tls_Certificate list"
  | GetCertificate "string list"

text \<open>
  The fields of \<^verbatim>\<open>Enclave\<close>: the router is the list of its routes (method, pattern,
  handler), in the order of registration.  Debug logging (\<^verbatim>\<open>e.log\<close>) writes to the
  process log only and is left out.
\<close>

record Enclave =
  cfg :: Config
  httpSrv_TLSConfig :: "tls_Config option"
  router :: "(string \<times> string \<times> http_HandlerFunc) list"
  certFpr :: bytes

definition acmeCertCacheDir :: string where
  "acmeCertCacheDir = ''cert-cache''"

definition certificateOrg :: string where
  "certificateOrg = ''Brave Software''"

text \<open>\<^verbatim>\<open>time.Hour * 24 * 356\<close>, in nanoseconds.\<close>

definition certificateValidity :: nat where
  "certificateValidity = 3600 * 1000000000 * 24 * 356"

text \<open>\<^verbatim>\<open>certFpr\<close> is not set by \<^verbatim>\<open>NewEnclave\<close>: it is the zero value of \<^verbatim>\<open>[32]byte\<close>.\<close>

definition NewEnclave :: "Config \<Rightarrow> Enclave" where
  "NewEnclave c =
     \<lparr>cfg = c, httpSrv_TLSConfig = None, router = [], certFpr = replicate 32 0\<rparr>"

subsection \<open>setCertFingerprint\<close>

definition errPemDecode :: go_error where
  "errPemDecode =
     errors_New ''pem.Decode failed because it didn't find PEM data in the input we provided''"

text \<open>
  The loop of \<^verbatim>\<open>setCertFingerprint\<close>.  Its condition reads the variable \<^verbatim>\<open>rest\<close>
  declared before the loop (\<open>None\<close> stands for a nil slice).  The body declares, with
  \<^verbatim>\<open>block, rest := pem.Decode(rawData)\<close>, a second \<^verbatim>\<open>rest\<close> of its own: that one
  becomes the next \<^verbatim>\<open>rawData\<close>, and the outer one is handed on as it is.  The loop need
  not end for an arbitrary decoder, so the result is an option: \<open>None\<close> is a loop that
  runs forever.
\<close>

partial_function (option) setCertFingerprint_loop ::
  "crypto \<Rightarrow> bytes option \<Rightarrow> bytes \<Rightarrow> Enclave \<Rightarrow> (go_error option \<times> Enclave) option" where
  "setCertFingerprint_loop L rest rawData e =
     (if rest = None then Some (None, e)
      else
        (case fst (pem_Decode L rawData) of
           None \<Rightarrow> Some (Some errPemDecode, e)
         | Some block \<Rightarrow>
             if Type block = ''CERTIFICATE'' then
               (case x509_ParseCertificate L (Bytes block) of
                  Inl err \<Rightarrow> Some (Some err, e)
                | Inr cert \<Rightarrow>
                    if \<not> IsCA cert then
                      Some (None, e\<lparr>certFpr := sha256_Sum256 L (Raw cert)\<rparr>)
                    else setCertFingerprint_loop L rest (snd (pem_Decode L rawData)) e)
             else setCertFingerprint_loop L rest (snd (pem_Decode L rawData)) e))"

text \<open>\<^verbatim>\<open>rest := []byte{}\<close> is an empty slice, not nil.\<close>

definition setCertFingerprint ::
  "crypto \<Rightarrow> bytes \<Rightarrow> Enclave \<Rightarrow> (go_error option \<times> Enclave) option" where
  "setCertFingerprint L rawData e = setCertFingerprint_loop L (Some []) rawData e"

subsection \<open>The operating system and the rest of the library\<close>

text \<open>The fields of the certificate template that \<^verbatim>\<open>genSelfSignedCert\<close> fills in.\<close>

record x509_template =
  SerialNumber :: nat
  Organization :: "string list"
  DNSNames :: "string list"
  NotBefore :: nat
  NotAfter :: nat
  BasicConstraintsValid :: bool
  template_IsCA :: bool

text \<open>
  What the start of the enclave asks of its surroundings.  \<^verbatim>\<open>seedEntropyPool\<close> and
  \<^verbatim>\<open>assignLoAddr\<close> are functions of this package whose source is not at hand; like
  the calls into the operating system and the library, they are given by their outcome.
\<close>

record sys =
  seedEntropyPool :: "go_error option"
  assignLoAddr :: "go_error option"
  ecdsa_GenerateKey :: "go_error + bytes"
  rand_Int :: "go_error + nat"
  time_Now :: nat
  x509_CreateCertificate :: "x509_template \<Rightarrow> bytes \<Rightarrow> go_error + bytes"
  pem_EncodeToMemory :: "pem_Block \<Rightarrow> bytes option"
  x509_MarshalPKCS8PrivateKey :: "bytes \<Rightarrow> go_error + bytes"
  tls_X509KeyPair :: "bytes \<Rightarrow> bytes \<Rightarrow> go_error + tls_Certificate"
  os_MkdirAll :: "string \<Rightarrow> go_error option"
  os_Setenv :: "string \<Rightarrow> string \<Rightarrow> go_error option"
  vsock_Listen :: "nat \<Rightarrow> go_error option"

subsection \<open>genSelfSignedCert\<close>

text \<open>\<^verbatim>\<open>log.Fatal\<close> ends the process; here it ends the start with its message.\<close>

definition log_Fatal :: "string \<Rightarrow> go_error" where
  "log_Fatal msg = errors_New msg"

definition genSelfSignedCert ::
  "crypto \<Rightarrow> sys \<Rightarrow> Enclave \<Rightarrow> (go_error option \<times> Enclave) option" where
  "genSelfSignedCert L S e =
     (case ecdsa_GenerateKey S of
        Inl err \<Rightarrow> Some (Some err, e)
      | Inr privateKey \<Rightarrow>
     (case rand_Int S of
        Inl err \<Rightarrow> Some (Some err, e)
      | Inr serialNumber \<Rightarrow>
     (case x509_CreateCertificate S
             \<lparr>SerialNumber = serialNumber,
              Organization = [certificateOrg],
              DNSNames = [FQDN (cfg e)],
              NotBefore = time_Now S,
              NotAfter = time_Now S + certificateValidity,
              BasicConstraintsValid = True,
              template_IsCA = False\<rparr> privateKey of
        Inl err \<Rightarrow> Some (Some err, e)
      | Inr derBytes \<Rightarrow>
     (case pem_EncodeToMemory S \<lparr>Type = ''CERTIFICATE'', Bytes = derBytes\<rparr> of
        None \<Rightarrow> Some (Some (errors_New ''failed to encode certificate to PEM''), e)
      | Some pemCert \<Rightarrow>
     (case setCertFingerprint L pemCert e of
        None \<Rightarrow> None
      | Some (Some err, e') \<Rightarrow> Some (Some err, e')
      | Some (None, e') \<Rightarrow>
     (case x509_MarshalPKCS8PrivateKey S privateKey of
        Inl err \<Rightarrow>
          Some (Some (log_Fatal (''Unable to marshal private key: '' @ go_error_string err)), e')
      | Inr privBytes \<Rightarrow>
     (case pem_EncodeToMemory S \<lparr>Type = ''PRIVATE KEY'', Bytes = privBytes\<rparr> of
        None \<Rightarrow> Some (Some (log_Fatal ''Failed to encode key to PEM.''), e')
      | Some pemKey \<Rightarrow>
     (case tls_X509KeyPair S pemCert pemKey of
        Inl err \<Rightarrow> Some (Some err, e')
      | Inr cert \<Rightarrow>
          Some (None, e'\<lparr>httpSrv_TLSConfig := Some (Certificates [cert])\<rparr>)))))))))"

subsection \<open>setupAcme\<close>

text \<open>
  \<^verbatim>\<open>setupAcme\<close> itself creates the cache directory, starts two goroutines and points
  the TLS configuration to the certificate manager.  It does not wait for either
  goroutine.
\<close>

definition setupAcme :: "sys \<Rightarrow> Enclave \<Rightarrow> go_error option \<times> Enclave" where
  "setupAcme S e =
     (case os_MkdirAll S acmeCertCacheDir of
        Some err \<Rightarrow>
          (Some (errors_New (''Failed to create cache directory: '' @ go_error_string err)), e)
      | None \<Rightarrow> (None, e\<lparr>httpSrv_TLSConfig := Some (GetCertificate [FQDN (cfg e)])\<rparr>))"

text \<open>
  The second goroutine asks the cache every five seconds until it answers with data.
  The answers of the cache, in order, are a list; a list without data is a goroutine
  that is still waiting.
\<close>

fun cache_poll :: "(go_error + bytes) list \<Rightarrow> bytes option" where
  "cache_poll [] = None"
| "cache_poll (Inl err # answers) = cache_poll answers"
| "cache_poll (Inr rawData # answers) = Some rawData"

text \<open>
  With the data it calls \<^verbatim>\<open>e.setCertFingerprint(rawData)\<close> on the shared enclave and
  drops the error.
\<close>

definition setupAcme_poller ::
  "crypto \<Rightarrow> (go_error + bytes) list \<Rightarrow> Enclave \<Rightarrow> Enclave option" where
  "setupAcme_poller L answers e =
     (case cache_poll answers of
        None \<Rightarrow> None
      | Some rawData \<Rightarrow>
          (case setCertFingerprint L rawData e of
             None \<Rightarrow> None
           | Some (_, e') \<Rightarrow> Some e'))"

subsection \<open>Start\<close>

definition errPrefix :: string where
  "errPrefix = ''failed to start Nitro Enclave''"

text \<open>\<^verbatim>\<open>fmt.Errorf("%s: %v", errPrefix, err)\<close>\<close>

definition fmt_Errorf_prefix :: "string \<Rightarrow> go_error \<Rightarrow> go_error" where
  "fmt_Errorf_prefix p err = errors_New (p @ '': '' @ go_error_string err)"

text \<open>
  \<^verbatim>\<open>Start\<close> up to the call of \<^verbatim>\<open>ServeTLS\<close>, which does not return while the server
  runs: \<open>Inr\<close> is the enclave that serves.  The handler for \<^verbatim>\<open>/attestation\<close> is made
  from the value that \<^verbatim>\<open>e.certFpr\<close> has when the route is registered; the array is
  passed by value.
\<close>

definition Start ::
  "crypto \<Rightarrow> sys \<Rightarrow> nsm \<Rightarrow> Enclave \<Rightarrow> (go_error + Enclave) option" where
  "Start L S dev e =
     (case seedEntropyPool S of
        Some err \<Rightarrow> Some (Inl (fmt_Errorf_prefix errPrefix err))
      | None \<Rightarrow>
     (case assignLoAddr S of
        Some err \<Rightarrow> Some (Inl (fmt_Errorf_prefix errPrefix err))
      | None \<Rightarrow>
     (case (if UseACME (cfg e) then Some (setupAcme S e) else genSelfSignedCert L S e) of
        None \<Rightarrow> None
      | Some (Some err, e') \<Rightarrow> Some (Inl (fmt_Errorf_prefix errPrefix err))
      | Some (None, e') \<Rightarrow>
     (let e'' = e'\<lparr>router := router e' @
                   [(http_MethodGet, ''/attestation'', getAttestationHandler dev (certFpr e'))]\<rparr>
      in
     (case os_Setenv S ''HTTP_PROXY'' (SOCKSProxy (cfg e'')) of
        Some err \<Rightarrow> Some (Inl (fmt_Errorf_prefix errPrefix err))
      | None \<Rightarrow>
     (case os_Setenv S ''HTTPS_PROXY'' (SOCKSProxy (cfg e'')) of
        Some err \<Rightarrow> Some (Inl (fmt_Errorf_prefix errPrefix err))
      | None \<Rightarrow>
     (case vsock_Listen S (Port (cfg e'')) of
        Some err \<Rightarrow> Some (Inl (fmt_Errorf_prefix errPrefix err))
      | None \<Rightarrow> Some (Inr e''))))))))"

section \<open>Notions used to state the properties\<close>

text \<open>The requests that a trace shows as sent to the device, in order.\<close>

fun sent :: "event list \<Rightarrow> request_Attestation list" where
  "sent [] = []"
| "sent (EvSend req # es) = req # sent es"
| "sent (_ # es) = sent es"

text \<open>A response without a document: no attestation, or an attestation without one.\<close>

definition no_document :: "response_Response \<Rightarrow> bool" where
  "no_document res =
     (case Attestation res of None \<Rightarrow> True | Some a \<Rightarrow> Document a = None)"

text \<open>The format a nonce is meant to have: exactly 40 lower-case hexadecimal digits.\<close>

definition nonce_40_lower_hex :: "string \<Rightarrow> bool" where
  "nonce_40_lower_hex s = (length s = 40 \<and> list_all class_af09 s)"

text \<open>
  A buffer holds the blocks \<open>bs\<close>: decoding it again and again yields them in this order
  and then finds no further block.
\<close>

fun pem_blocks :: "crypto \<Rightarrow> bytes \<Rightarrow> pem_Block list \<Rightarrow> bool" where
  "pem_blocks L data [] = (fst (pem_Decode L data) = None)"
| "pem_blocks L data (b # bs) =
     (fst (pem_Decode L data) = Some b \<and> pem_blocks L (snd (pem_Decode L data)) bs)"

text \<open>A block is a valid PEM-encoded certificate \<open>c\<close>.\<close>

definition is_certificate :: "crypto \<Rightarrow> pem_Block \<Rightarrow> x509_Certificate \<Rightarrow> bool" where
  "is_certificate L b c =
     (Type b = ''CERTIFICATE'' \<and> x509_ParseCertificate L (Bytes b) = Inr c)"

text \<open>
  The enclave after \<^verbatim>\<open>Start\<close> has begun to serve and the polling goroutine of
  \<^verbatim>\<open>setupAcme\<close> has then found the certificate and set the fingerprint.  An enclave
  has no certificate cache of its own when it starts, and the certificate manager writes
  to the cache only while it answers a TLS handshake, so the goroutine finds data only
  after the server runs.
\<close>

definition Start_then_poll ::
  "crypto \<Rightarrow> sys \<Rightarrow> nsm \<Rightarrow> (go_error + bytes) list \<Rightarrow> Enclave \<Rightarrow> Enclave option" where
  "Start_then_poll L S dev answers e =
     (case Start L S dev e of
        Some (Inr e1) \<Rightarrow> setupAcme_poller L answers e1
      | _ \<Rightarrow> None)"

text \<open>
  What the routes of an enclave send to the device when they serve the request \<open>r\<close>:
  for each route its method, its pattern and the requests its handler sends.
\<close>

definition served ::
  "Enclave \<Rightarrow> http_Request \<Rightarrow> event list \<Rightarrow>
     (string \<times> string \<times> request_Attestation list) list" where
  "served e r tr =
     map (\<lambda>(m, p, h). (m, p, sent (snd (h new_ResponseWriter r tr)))) (router e)"

section \<open>Stand-ins for the device and the library\<close>

text \<open>A device that answers every call in the same way.\<close>

definition nsm_answering ::
  "go_error option \<Rightarrow> response_Response \<times> go_error option \<Rightarrow> go_error option \<Rightarrow> nsm" where
  "nsm_answering openRes sendRes closeRes =
     \<lparr>nsm_OpenDefaultSession = (\<lambda>_. openRes),
      nsm_Send = (\<lambda>_ _. sendRes),
      nsm_Close = (\<lambda>_. closeRes)\<rparr>"

text \<open>
  A toy library on which the model can be run: a block is a tag byte (1 for a
  certificate), a length byte and the payload; a certificate is its DER bytes, the first
  of which says whether it is a CA; the digest pads or cuts the input to 32 bytes.  It
  is used in examples only, never in the general statements.
\<close>

fun toy_pem_Decode :: "bytes \<Rightarrow> pem_Block option \<times> bytes" where
  "toy_pem_Decode (t # n # data) =
     (if unat n \<le> length data then
        (Some \<lparr>Type = (if t = 1 then ''CERTIFICATE'' else ''PRIVATE KEY''),
               Bytes = take (unat n) data\<rparr>,
         drop (unat n) data)
      else (None, t # n # data))"
| "toy_pem_Decode data = (None, data)"

definition toy_x509_ParseCertificate :: "bytes \<Rightarrow> go_error + x509_Certificate" where
  "toy_x509_ParseCertificate der =
     (case der of
        [] \<Rightarrow> Inl (errors_New ''x509: malformed certificate'')
      | f # _ \<Rightarrow> Inr \<lparr>Raw = der, IsCA = (f = 1)\<rparr>)"

definition toy_sha256_Sum256 :: "bytes \<Rightarrow> bytes" where
  "toy_sha256_Sum256 data = take 32 (data @ replicate 32 0xff)"

definition toy_crypto :: crypto where
  "toy_crypto =
     \<lparr>pem_Decode = toy_pem_Decode,
      x509_ParseCertificate = toy_x509_ParseCertificate,
      sha256_Sum256 = toy_sha256_Sum256\<rparr>"

definition toy_pem_EncodeToMemory :: "pem_Block \<Rightarrow> bytes option" where
  "toy_pem_EncodeToMemory b =
     (if length (Bytes b) < 256 then
        Some ((if Type b = ''CERTIFICATE'' then 1 else 2) # of_nat (length (Bytes b)) # Bytes b)
      else None)"

definition toy_tls_X509KeyPair :: "bytes \<Rightarrow> bytes \<Rightarrow> go_error + tls_Certificate" where
  "toy_tls_X509KeyPair certPEM keyPEM =
     (case fst (toy_pem_Decode certPEM) of
        None \<Rightarrow> Inl (errors_New ''tls: failed to find any PEM data in certificate input'')
      | Some b \<Rightarrow> Inr \<lparr>Certificate = [Bytes b], PrivateKey = keyPEM\<rparr>)"

text \<open>Surroundings in which every step of the start succeeds.\<close>

definition toy_sys :: sys where
  "toy_sys =
     \<lparr>seedEntropyPool = None,
      assignLoAddr = None,
      ecdsa_GenerateKey = Inr [4, 2],
      rand_Int = Inr 7,
      time_Now = 0,
      x509_CreateCertificate = (\<lambda>t k. Inr [if template_IsCA t then 1 else 0, 5, 5]),
      pem_EncodeToMemory = toy_pem_EncodeToMemory,
      x509_MarshalPKCS8PrivateKey = (\<lambda>k. Inr k),
      tls_X509KeyPair = toy_tls_X509KeyPair,
      os_MkdirAll = (\<lambda>_. None),
      os_Setenv = (\<lambda>_ _. None),
      vsock_Listen = (\<lambda>_. None)\<rparr>"

definition toy_Config :: "bool \<Rightarrow> Config" where
  "toy_Config acme =
     \<lparr>SOCKSProxy = ''socks5://127.0.0.1:1080'', FQDN = ''example.test'', Port = 8443,
      UseACME = acme, Debug = False\<rparr>"

section \<open>Hexadecimal digits and bytes\<close>

lemma f_mask: "(0x0f::byte) = mask 4"
  by (simp add: mask_eq_exp_minus_1)

lemma nib_hi: "unat (drop_bit 4 (v::byte)) < 16"
proof -
  have "unat v < 256" using unsigned_less[of v] by simp
  then show ?thesis by (simp add: unat_drop_bit_eq drop_bit_eq_div unat_div)
qed

lemma nib_lo: "unat ((v::byte) AND 0x0f) < 16"
proof -
  have "v AND 0x0f \<le> 0x0f" by (rule word_and_le1)
  then have "unat (v AND 0x0f) \<le> unat (0x0f :: byte)" by (simp only: word_le_nat_alt)
  then show ?thesis by simp
qed

lemma nib_join: "push_bit 4 (drop_bit 4 v) OR (v AND 0x0f) = (v::byte)"
  unfolding f_mask by (rule bit_word_eqI) (auto simp: bit_simps)

lemma nibble_bits: "unat (a::byte) < 16 \<Longrightarrow> bit a n \<Longrightarrow> n < 4"
proof -
  assume a: "unat a < 16" and n: "bit a n"
  have "a < 2 ^ 4" using a by (simp add: word_less_nat_alt)
  then have "a AND mask 4 = a" by (rule less_mask_eq)
  with n have "bit (a AND mask 4) n" by simp
  then show ?thesis by (simp add: bit_and_iff bit_mask_iff)
qed

lemma nib_split_hi: "unat a < 16 \<Longrightarrow> unat b < 16 \<Longrightarrow> drop_bit 4 (push_bit 4 a OR b) = (a::byte)"
  by (rule bit_word_eqI) (auto simp: bit_simps dest: nibble_bits)

lemma nib_split_lo: "unat a < 16 \<Longrightarrow> unat b < 16 \<Longrightarrow> (push_bit 4 a OR b) AND 0x0f = (b::byte)"
  unfolding f_mask by (rule bit_word_eqI) (auto simp: bit_simps dest: nibble_bits)

lemma fromHexChar_hextable_all:
  "list_all (\<lambda>n. fromHexChar (hextable ! n) = Some (of_nat n)) [0..<16]"
  by (simp add: upt_rec fromHexChar_def hextable_def)

lemma fromHexChar_hextable: "n < 16 \<Longrightarrow> fromHexChar (hextable ! n) = Some (of_nat n)"
  using fromHexChar_hextable_all by (simp add: list_all_iff)

lemma fromHexChar_digit: "unat (a::byte) < 16 \<Longrightarrow> fromHexChar (hextable ! unat a) = Some a"
  by (simp add: fromHexChar_hextable)

lemma class_af09_hextable: "class_af09 c \<Longrightarrow> c \<in> set hextable"
proof -
  assume "class_af09 c"
  then have "of_char c \<in> {48, 49, 50, 51, 52, 53, 54, 55, 56, 57, 97, 98, 99, 100, 101, 102::nat}"
    unfolding class_af09_def Let_def by (simp; arith)
  then show ?thesis by (simp add: hextable_def flip: of_char_eq_iff[where ?'a = nat])
qed

lemma class_af09_digit:
  assumes "class_af09 c"
  obtains a where "fromHexChar c = Some a" "unat a < 16" "hextable ! unat a = c"
proof -
  from assms have "c \<in> set hextable" by (rule class_af09_hextable)
  then obtain n where "n < length hextable" and n2: "c = hextable ! n"
    by (auto simp only: in_set_conv_nth)
  then have "n < 16" by (simp add: hextable_def)
  note n = this n2
  let ?a = "of_nat n :: byte"
  have u: "unat ?a = n" using n(1) by (simp add: unat_of_nat)
  have "fromHexChar c = Some ?a" using n by (simp add: fromHexChar_hextable)
  with u n that show thesis by simp
qed

lemma hex_roundtrip: "hex_DecodeString (hex_EncodeToString x) = Inr x"
  by (induction x) (simp_all add: fromHexChar_digit nib_hi nib_lo nib_join)

lemma hex_DecodeString_length: "hex_DecodeString s = Inr raw \<Longrightarrow> length s = 2 * length raw"
  by (induction s arbitrary: raw rule: hex_DecodeString.induct)
     (auto split: option.splits sum.splits)

lemma hex_DecodeString_lower:
  "list_all class_af09 s \<Longrightarrow> even (length s) \<Longrightarrow>
     \<exists>raw. hex_DecodeString s = Inr raw \<and> hex_EncodeToString raw = s"
proof (induction s rule: hex_DecodeString.induct)
  case 1
  then show ?case by simp
next
  case (2 p)
  then show ?case by simp
next
  case (3 p q src)
  from 3(2) have cp: "class_af09 p" and cq: "class_af09 q" and rest: "list_all class_af09 src"
    by simp_all
  from cp obtain a where a: "fromHexChar p = Some a" "unat a < 16" "hextable ! unat a = p"
    by (rule class_af09_digit)
  from cq obtain b where b: "fromHexChar q = Some b" "unat b < 16" "hextable ! unat b = q"
    by (rule class_af09_digit)
  from 3(3) have "even (length src)" by simp
  with 3(1)[OF a(1) b(1)] rest obtain raw where
    raw: "hex_DecodeString src = Inr raw" "hex_EncodeToString raw = src" by blast
  let ?v = "push_bit 4 a OR b"
  have dec: "hex_DecodeString (p # q # src) = Inr (?v # raw)"
    using a(1) b(1) raw(1) by simp
  have "hex_EncodeToString (?v # raw) = hextable ! unat a # hextable ! unat b # src"
    by (simp only: hex_EncodeToString.simps nib_split_hi[OF a(2) b(2)]
        nib_split_lo[OF a(2) b(2)] raw(2))
  with a(3) b(3) have "hex_EncodeToString (?v # raw) = p # q # src" by simp
  with dec show ?case by blast
qed

lemma match_here_iff: "match_here n s \<longleftrightarrow> n \<le> length s \<and> list_all class_af09 (take n s)"
  by (induction n s rule: match_here.induct) auto

lemma regexp_MatchString_iff:
  "regexp_MatchString n s \<longleftrightarrow>
     (\<exists>pre mid post. s = pre @ mid @ post \<and> length mid = n \<and> list_all class_af09 mid)"
proof (induction s)
  case Nil
  then show ?case by (auto simp: match_here_iff)
next
  case (Cons c s)
  show ?case (is "?L \<longleftrightarrow> ?R")
  proof
    assume ?L
    then consider "match_here n (c # s)" | "regexp_MatchString n s" by auto
    then show ?R
    proof cases
      case 1
      then have "c # s = [] @ take n (c # s) @ drop n (c # s)" "length (take n (c # s)) = n"
        "list_all class_af09 (take n (c # s))" by (auto simp: match_here_iff)
      then show ?thesis by blast
    next
      case 2
      with Cons obtain pre mid post where "s = pre @ mid @ post" "length mid = n" "list_all class_af09 mid"
        by blast
      then have "c # s = (c # pre) @ mid @ post" by simp
      with \<open>length mid = n\<close> \<open>list_all class_af09 mid\<close> show ?thesis by blast
    qed
  next
    assume ?R
    then obtain pre mid post where d: "c # s = pre @ mid @ post" "length mid = n" "list_all class_af09 mid"
      by blast
    show ?L
    proof (cases pre)
      case Nil
      with d have "match_here n (c # s)" by (auto simp: match_here_iff)
      then show ?thesis by simp
    next
      case (Cons c' pre')
      with d have "s = pre' @ mid @ post" by simp
      with d Cons.IH have "regexp_MatchString n s" by blast
      then show ?thesis by simp
    qed
  qed
qed

section \<open>The steps of attest\<close>

lemma sent_append: "sent (xs @ ys) = sent xs @ sent ys"
  by (induction xs rule: sent.induct) simp_all

lemma attest_send_result:
  "nsm_Send dev tr \<lparr>Nonce = nonce, UserData = userData, PublicKey = []\<rparr> = (res, sendErr) \<Longrightarrow>
   attest_send dev nonce userData publicKey tr =
     ((if Error res \<noteq> [] then Inl (errors_New (Error res))
       else if no_document res then Inl errNoAttestation
       else Inr (the (Document (the (Attestation res))))),
      tr @ [EvSend \<lparr>Nonce = nonce, UserData = userData, PublicKey = []\<rparr>])"
  by (auto simp: attest_send_def no_document_def Let_def split: option.splits)

lemma attest_send_trace:
  "snd (attest_send dev nonce userData publicKey tr) =
     tr @ [EvSend \<lparr>Nonce = nonce, UserData = userData, PublicKey = []\<rparr>]"
  by (cases "nsm_Send dev tr \<lparr>Nonce = nonce, UserData = userData, PublicKey = []\<rparr>")
     (simp add: attest_send_result)

lemma attest_send_publicKey:
  "attest_send dev nonce userData publicKey tr = attest_send dev nonce userData publicKey' tr"
  by (simp add: attest_send_def)

lemma attest_deferred_trace:
  "attest_deferred dev tr =
     tr @ EvClose # (case nsm_Close dev tr of None \<Rightarrow> []
                     | Some err \<Rightarrow> [EvLogPrintf (''Failed to close default NSM session: '' @ go_error_string err)])"
  by (simp add: attest_deferred_def split: option.splits)

lemma attest_open_ok:
  "nsm_OpenDefaultSession dev tr = None \<Longrightarrow>
   attest dev nonce userData publicKey tr =
     (fst (attest_send dev nonce userData publicKey (tr @ [EvOpenDefaultSession])),
      attest_deferred dev (snd (attest_send dev nonce userData publicKey (tr @ [EvOpenDefaultSession]))))"
  by (simp add: attest_def split: prod.splits)

lemma attest_open_fails:
  "nsm_OpenDefaultSession dev tr = Some err \<Longrightarrow>
   attest dev nonce userData publicKey tr = (Inl err, tr @ [EvOpenDefaultSession])"
  by (simp add: attest_def)

section \<open>The checks of the handler\<close>

lemma nonceRegExp_matches_iff:
  "nonceRegExp_matches s \<longleftrightarrow>
     (\<exists>pre mid post. s = pre @ mid @ post \<and> length mid = 40 \<and> list_all class_af09 mid)"
  by (simp add: nonceRegExp_matches_def nonceLen_def regexp_MatchString_iff)

lemma nonceRegExp_matches_length: "nonceRegExp_matches s \<Longrightarrow> 40 \<le> length s"
  by (auto simp: nonceRegExp_matches_iff)

lemma nonceRegExp_matches_lower:
  "list_all class_af09 s \<Longrightarrow> 40 \<le> length s \<Longrightarrow> nonceRegExp_matches s"
proof -
  assume a: "list_all class_af09 s" "40 \<le> length s"
  have "s = [] @ take 40 s @ drop 40 s" by simp
  moreover have "length (take 40 s) = 40" using a(2) by simp
  moreover have "list_all class_af09 (take 40 s)"
    using a(1) by (auto simp: list_all_iff dest: in_set_takeD)
  ultimately show ?thesis unfolding nonceRegExp_matches_iff by blast
qed

lemma nonce_40_lower_hex_accepted:
  assumes "nonce_40_lower_hex s"
  shows "s \<noteq> []" "nonceRegExp_matches s"
    "\<exists>raw. hex_DecodeString s = Inr raw \<and> length raw = 20 \<and> hex_EncodeToString raw = s"
proof -
  from assms have l: "length s = 40" and c: "list_all class_af09 s"
    by (simp_all add: nonce_40_lower_hex_def)
  from l show "s \<noteq> []" by auto
  from l c show "nonceRegExp_matches s" by (simp add: nonceRegExp_matches_lower)
  from l c obtain raw where raw: "hex_DecodeString s = Inr raw" "hex_EncodeToString raw = s"
    using hex_DecodeString_lower[of s] by auto
  from raw(1) l have "length raw = 20" by (auto dest: hex_DecodeString_length)
  with raw show "\<exists>raw. hex_DecodeString s = Inr raw \<and> length raw = 20 \<and> hex_EncodeToString raw = s"
    by blast
qed

lemma http_Error_new:
  "http_Error new_ResponseWriter err code = \<lparr>status = Some code, body = err @ [CHR 0x0A]\<rparr>"
  by (simp add: http_Error_def fmt_Fprintln_def WriteHeader_def new_ResponseWriter_def)

lemma fmt_Fprintln_new:
  "fmt_Fprintln new_ResponseWriter s = \<lparr>status = Some 200, body = s @ [CHR 0x0A]\<rparr>"
  by (simp add: fmt_Fprintln_def WriteHeader_def new_ResponseWriter_def)

lemma handler_not_GET:
  "Method r \<noteq> http_MethodGet \<Longrightarrow>
   getAttestationHandler dev certHash w r tr =
     (http_Error w errMethodNotGET http_StatusMethodNotAllowed, tr)"
  by (simp add: getAttestationHandler_def)

lemma handler_rejects:
  assumes "Method r = http_MethodGet" "ParseForm r = None"
    and "\<not> nonceRegExp_matches (Values_Get (URL_Query r) ''nonce'') \<or>
         isl (hex_DecodeString (Values_Get (URL_Query r) ''nonce''))"
  shows "getAttestationHandler dev certHash new_ResponseWriter r tr =
     (\<lparr>status = Some 400,
       body = (if Values_Get (URL_Query r) ''nonce'' = [] then errNoNonce else errBadNonceFormat)
              @ [CHR 0x0A]\<rparr>, tr)"
  using assms
  by (auto simp: getAttestationHandler_def Let_def http_Error_new http_StatusBadRequest_def
      isl_def dest: nonceRegExp_matches_length)

lemma handler_accepts:
  assumes "Method r = http_MethodGet" "ParseForm r = None"
    and "nonceRegExp_matches (Values_Get (URL_Query r) ''nonce'')"
    and "hex_DecodeString (Values_Get (URL_Query r) ''nonce'') = Inr rawNonce"
  shows "getAttestationHandler dev certHash w r tr =
     (case attest dev rawNonce certHash [] tr of
        (Inl err, tr') \<Rightarrow> (http_Error w errFailedAttestation http_StatusInternalServerError, tr')
      | (Inr rawDoc, tr') \<Rightarrow> (fmt_Fprintln w (base64_StdEncoding_EncodeToString rawDoc), tr'))"
  using assms
  by (auto simp: getAttestationHandler_def Let_def dest: nonceRegExp_matches_length)

section \<open>Example inputs\<close>

lemma example_nonce_40_valid: "nonce_40_lower_hex ''a1b2c3d4e5f6a1b2c3d4e5f6a1b2c3d4e5f6a1b2''"
  by (simp add: nonce_40_lower_hex_def class_af09_def)

lemma example_nonce_40_decoded:
  "hex_DecodeString ''a1b2c3d4e5f6a1b2c3d4e5f6a1b2c3d4e5f6a1b2'' =
     Inr [0xa1, 0xb2, 0xc3, 0xd4, 0xe5, 0xf6, 0xa1, 0xb2, 0xc3, 0xd4,
          0xe5, 0xf6, 0xa1, 0xb2, 0xc3, 0xd4, 0xe5, 0xf6, 0xa1, 0xb2]"
  by (simp add: fromHexChar_def)

lemma example_nonce_42_matches:
  "nonceRegExp_matches ''aaaaaaaaaaaaaaaaaaaaaaaaaaaaaaaaaaaaaaaaaa''"
  by (rule nonceRegExp_matches_lower) (simp_all add: class_af09_def)

lemma example_nonce_42_decoded:
  "hex_DecodeString ''aaaaaaaaaaaaaaaaaaaaaaaaaaaaaaaaaaaaaaaaaa'' = Inr (replicate 21 0xaa)"
  by (simp add: fromHexChar_def numeral_eq_Suc)

lemma base64_test_vectors:
  "base64_StdEncoding_EncodeToString [] = []"
  "base64_StdEncoding_EncodeToString [0x66] = ''Zg==''"
  "base64_StdEncoding_EncodeToString [0x66, 0x6f] = ''Zm8=''"
  "base64_StdEncoding_EncodeToString [0x66, 0x6f, 0x6f] = ''Zm9v''"
  "base64_StdEncoding_EncodeToString [0x66, 0x6f, 0x6f, 0x62] = ''Zm9vYg==''"
  "base64_StdEncoding_EncodeToString [0x66, 0x6f, 0x6f, 0x62, 0x61, 0x72] = ''Zm9vYmFy''"
  by (simp_all add: b64_digit_def encodeStd_def)

section \<open>Properties of attest\<close>

text \<open>
  C10: the request sent to the device always has an empty public key, whatever the
  \<^verbatim>\<open>publicKey\<close> argument of \<^verbatim>\<open>attest\<close> is, and the argument changes neither the
  result of \<^verbatim>\<open>attest\<close> nor what it does: calls with two different public keys are
  equal, and the one request added to the trace (when the session opens) carries the
  nonce, the user data and no public key.
\<close>

theorem attest_publicKey_unused:
  "attest dev nonce userData publicKey tr = attest dev nonce userData publicKey' tr \<and>
   sent (snd (attest dev nonce userData publicKey tr)) =
     sent tr @ (case nsm_OpenDefaultSession dev tr of
                  None \<Rightarrow> [\<lparr>Nonce = nonce, UserData = userData, PublicKey = []\<rparr>]
                | Some _ \<Rightarrow> [])"
proof
  show "attest dev nonce userData publicKey tr = attest dev nonce userData publicKey' tr"
    by (cases "nsm_OpenDefaultSession dev tr")
       (simp_all add: attest_open_ok attest_open_fails
          attest_send_publicKey[of dev nonce userData publicKey _ publicKey'])
  show "sent (snd (attest dev nonce userData publicKey tr)) =
     sent tr @ (case nsm_OpenDefaultSession dev tr of
                  None \<Rightarrow> [\<lparr>Nonce = nonce, UserData = userData, PublicKey = []\<rparr>]
                | Some _ \<Rightarrow> [])"
    by (cases "nsm_OpenDefaultSession dev tr")
       (simp_all add: attest_open_ok attest_open_fails attest_send_trace attest_deferred_trace
          sent_append split: option.splits)
qed

text \<open>
  C3: once the session is open, the response of the device alone decides the result of
  \<^verbatim>\<open>attest\<close>, whatever error \<^verbatim>\<open>Send\<close> returns beside it (\<open>sendErr\<close> is arbitrary): a
  response with a non-empty error field makes \<^verbatim>\<open>attest\<close> fail with the message of the
  device, and a response without a document makes it fail with the no-document error.
  The error field is looked at first, so the second case is the one of a response whose
  error field is empty.
\<close>

theorem attest_response_decides:
  assumes "nsm_OpenDefaultSession dev tr = None"
    and "nsm_Send dev (tr @ [EvOpenDefaultSession])
           \<lparr>Nonce = nonce, UserData = userData, PublicKey = []\<rparr> = (res, sendErr)"
  shows "(Error res \<noteq> [] \<longrightarrow>
            fst (attest dev nonce userData publicKey tr) = Inl (errors_New (Error res))) \<and>
         (Error res = [] \<and> no_document res \<longrightarrow>
            fst (attest dev nonce userData publicKey tr) = Inl errNoAttestation)"
  using assms by (simp add: attest_open_ok attest_send_result)

theorem attest_response_decides_witness:
  "fst (attest (nsm_answering None
                  (\<lparr>Error = ''InvalidOperation'',
                    Attestation = Some \<lparr>Document = Some [1, 2]\<rparr>\<rparr>, None) None)
          [7] [8] [9] []) = Inl (errors_New ''InvalidOperation'') \<and>
   fst (attest (nsm_answering None
                  (\<lparr>Error = [], Attestation = None\<rparr>, Some (errors_New ''ioctl'')) None)
          [7] [8] [9] []) = Inl errNoAttestation"
  using attest_response_decides
          [of "nsm_answering None
                 (\<lparr>Error = ''InvalidOperation'',
                   Attestation = Some \<lparr>Document = Some [1, 2]\<rparr>\<rparr>, None) None"
              "[]" "[7]" "[8]"
              "\<lparr>Error = ''InvalidOperation'', Attestation = Some \<lparr>Document = Some [1, 2]\<rparr>\<rparr>"
              None "[9]"]
        attest_response_decides
          [of "nsm_answering None
                 (\<lparr>Error = [], Attestation = None\<rparr>, Some (errors_New ''ioctl'')) None"
              "[]" "[7]" "[8]" "\<lparr>Error = [], Attestation = None\<rparr>"
              "Some (errors_New ''ioctl'')" "[9]"]
  by (simp add: nsm_answering_def no_document_def)

text \<open>
  C4: when the session opens, \<^verbatim>\<open>attest\<close> closes it exactly once before it returns,
  whatever the device answers to the request: the trace grows by the opening, the
  request, one close and, at most, a log line, and the number of closes in it grows by
  one.  The outcome of the close does not change the result of \<^verbatim>\<open>attest\<close>.
\<close>

theorem attest_closes_once:
  assumes "nsm_OpenDefaultSession dev tr = None"
  shows "count_list (snd (attest dev nonce userData publicKey tr)) EvClose =
           Suc (count_list tr EvClose) \<and>
         (\<exists>log. snd (attest dev nonce userData publicKey tr) =
            tr @ [EvOpenDefaultSession,
                  EvSend \<lparr>Nonce = nonce, UserData = userData, PublicKey = []\<rparr>,
                  EvClose] @ log
            \<and> count_list log EvClose = 0) \<and>
         fst (attest (dev\<lparr>nsm_Close := closeResult\<rparr>) nonce userData publicKey tr) =
           fst (attest dev nonce userData publicKey tr)"
proof (intro conjI)
  let ?req = "\<lparr>Nonce = nonce, UserData = userData, PublicKey = []\<rparr>"
  let ?tr2 = "tr @ [EvOpenDefaultSession, EvSend ?req]"
  let ?log = "case nsm_Close dev ?tr2 of None \<Rightarrow> []
     | Some err \<Rightarrow>
         [EvLogPrintf (''Failed to close default NSM session: '' @ go_error_string err)]"
  have tr: "snd (attest dev nonce userData publicKey tr) =
     tr @ [EvOpenDefaultSession, EvSend ?req, EvClose] @ ?log"
    using assms by (simp add: attest_open_ok attest_send_trace attest_deferred_trace)
  have log: "count_list ?log EvClose = 0" by (simp split: option.splits)
  from tr log show "\<exists>log. snd (attest dev nonce userData publicKey tr) =
            tr @ [EvOpenDefaultSession, EvSend ?req, EvClose] @ log \<and> count_list log EvClose = 0"
    by blast
  from log show "count_list (snd (attest dev nonce userData publicKey tr)) EvClose =
      Suc (count_list tr EvClose)"
    by (simp only: tr count_list_append) simp
  show "fst (attest (dev\<lparr>nsm_Close := closeResult\<rparr>) nonce userData publicKey tr) =
           fst (attest dev nonce userData publicKey tr)"
    using assms by (simp add: attest_open_ok attest_send_def)
qed

theorem attest_closes_once_witness:
  "count_list
     (snd (attest (nsm_answering None
                     (\<lparr>Error = [], Attestation = Some \<lparr>Document = Some [1, 2, 3]\<rparr>\<rparr>,
                      Some (errors_New ''ioctl'')) None)
             [7] [8] [9] [EvOpenDefaultSession, EvClose])) EvClose = 2 \<and>
   fst (attest ((nsm_answering None
                     (\<lparr>Error = [], Attestation = Some \<lparr>Document = Some [1, 2, 3]\<rparr>\<rparr>,
                      Some (errors_New ''ioctl'')) None)
                \<lparr>nsm_Close := \<lambda>_. Some (errors_New ''EBADF'')\<rparr>)
          [7] [8] [9] [EvOpenDefaultSession, EvClose]) = Inr [1, 2, 3]"
  using attest_closes_once
          [of "nsm_answering None
                 (\<lparr>Error = [], Attestation = Some \<lparr>Document = Some [1, 2, 3]\<rparr>\<rparr>,
                  Some (errors_New ''ioctl'')) None"
              "[EvOpenDefaultSession, EvClose]" "[7]" "[8]" "[9]"
              "\<lambda>_. Some (errors_New ''EBADF'')"]
  by (simp add: nsm_answering_def attest_def attest_send_def)

section \<open>Properties of the handler\<close>

text \<open>
  C9 (as the code has it): a request whose method is not GET is answered with status 405
  and the message \<^verbatim>\<open>only HTTP GET requests are allowed\<close>, followed by a newline.
  Nothing else of the request is looked at and the device is not touched: the answer
  and the unchanged trace are the same for every form, query and nonce.
\<close>

theorem handler_not_GET_405:
  "Method r \<noteq> http_MethodGet \<Longrightarrow>
   getAttestationHandler dev certHash new_ResponseWriter r tr =
     (\<lparr>status = Some 405, body = ''only HTTP GET requests are allowed'' @ [CHR 0x0A]\<rparr>, tr)"
  by (simp add: handler_not_GET http_Error_new errMethodNotGET_def http_StatusMethodNotAllowed_def)

theorem handler_not_GET_405_witness:
  "getAttestationHandler
      (nsm_answering None (\<lparr>Error = [], Attestation = None\<rparr>, None) None) [1, 2]
      new_ResponseWriter
      \<lparr>Method = ''POST'', ParseForm = None,
       URL_Query = [''nonce'' \<mapsto> [''a1b2c3d4e5f6a1b2c3d4e5f6a1b2c3d4e5f6a1b2'']]\<rparr> [] =
     (\<lparr>status = Some 405, body = ''only HTTP GET requests are allowed'' @ [CHR 0x0A]\<rparr>, [])"
  using handler_not_GET_405
          [of "\<lparr>Method = ''POST'', ParseForm = None,
               URL_Query = [''nonce'' \<mapsto> [''a1b2c3d4e5f6a1b2c3d4e5f6a1b2c3d4e5f6a1b2'']]\<rparr>"
              "nsm_answering None (\<lparr>Error = [], Attestation = None\<rparr>, None) None"
              "[1, 2]" "[]"]
  by (simp add: http_MethodGet_def)

text \<open>
  C9, with the message \<^verbatim>\<open>only GET requests are allowed\<close>: a POST request is
  answered with status 405, but the body is neither that message nor that message
  followed by a newline.
\<close>

theorem handler_not_GET_message_counterexample:
  "status (fst (getAttestationHandler
                  (nsm_answering None (\<lparr>Error = [], Attestation = None\<rparr>, None) None) []
                  new_ResponseWriter
                  \<lparr>Method = ''POST'', ParseForm = None, URL_Query = Map.empty\<rparr> [])) = Some 405 \<and>
   body (fst (getAttestationHandler
                (nsm_answering None (\<lparr>Error = [], Attestation = None\<rparr>, None) None) []
                new_ResponseWriter
                \<lparr>Method = ''POST'', ParseForm = None, URL_Query = Map.empty\<rparr> []))
     \<noteq> ''only GET requests are allowed'' \<and>
   body (fst (getAttestationHandler
                (nsm_answering None (\<lparr>Error = [], Attestation = None\<rparr>, None) None) []
                new_ResponseWriter
                \<lparr>Method = ''POST'', ParseForm = None, URL_Query = Map.empty\<rparr> []))
     \<noteq> ''only GET requests are allowed'' @ [CHR 0x0A]"
  by (simp add: getAttestationHandler_def http_MethodGet_def http_Error_new errMethodNotGET_def
      http_StatusMethodNotAllowed_def)

text \<open>
  C8: a GET request whose nonce is 40 lower-case hexadecimal digits, and for which
  \<^verbatim>\<open>attest\<close> returns the document \<open>D\<close>, is answered with status 200 and the body
  \<open>base64(D)\<close> followed by one newline.
\<close>

theorem handler_success_body:
  assumes "Method r = http_MethodGet" "ParseForm r = None"
    and "nonce_40_lower_hex (Values_Get (URL_Query r) ''nonce'')"
    and "hex_DecodeString (Values_Get (URL_Query r) ''nonce'') = Inr rawNonce"
    and "attest dev rawNonce certHash [] tr = (Inr D, tr')"
  shows "getAttestationHandler dev certHash new_ResponseWriter r tr =
     (\<lparr>status = Some 200, body = base64_StdEncoding_EncodeToString D @ [CHR 0x0A]\<rparr>, tr')"
  using assms nonce_40_lower_hex_accepted(2)[OF assms(3)]
  by (simp add: handler_accepts fmt_Fprintln_new)

theorem handler_success_body_witness:
  "getAttestationHandler
      (nsm_answering None
         (\<lparr>Error = [], Attestation = Some \<lparr>Document = Some [0x66, 0x6f, 0x6f, 0x62]\<rparr>\<rparr>, None) None)
      [9, 9] new_ResponseWriter
      \<lparr>Method = ''GET'', ParseForm = None,
       URL_Query = [''nonce'' \<mapsto> [''a1b2c3d4e5f6a1b2c3d4e5f6a1b2c3d4e5f6a1b2'']]\<rparr> [] =
     (\<lparr>status = Some 200, body = ''Zm9vYg=='' @ [CHR 0x0A]\<rparr>,
      [EvOpenDefaultSession,
       EvSend \<lparr>Nonce = [0xa1, 0xb2, 0xc3, 0xd4, 0xe5, 0xf6, 0xa1, 0xb2, 0xc3, 0xd4,
                         0xe5, 0xf6, 0xa1, 0xb2, 0xc3, 0xd4, 0xe5, 0xf6, 0xa1, 0xb2],
               UserData = [9, 9], PublicKey = []\<rparr>,
       EvClose])"
proof -
  let ?r = "\<lparr>Method = ''GET'', ParseForm = None,
       URL_Query = [''nonce'' \<mapsto> [''a1b2c3d4e5f6a1b2c3d4e5f6a1b2c3d4e5f6a1b2'']]\<rparr>"
  let ?dev = "nsm_answering None
         (\<lparr>Error = [], Attestation = Some \<lparr>Document = Some [0x66, 0x6f, 0x6f, 0x62]\<rparr>\<rparr>, None) None"
  let ?raw = "[0xa1, 0xb2, 0xc3, 0xd4, 0xe5, 0xf6, 0xa1, 0xb2, 0xc3, 0xd4,
               0xe5, 0xf6, 0xa1, 0xb2, 0xc3, 0xd4, 0xe5, 0xf6, 0xa1, 0xb2] :: bytes"
  let ?tr' = "[EvOpenDefaultSession,
       EvSend \<lparr>Nonce = ?raw, UserData = [9, 9], PublicKey = []\<rparr>, EvClose]"
  have q: "Values_Get (URL_Query ?r) ''nonce'' = ''a1b2c3d4e5f6a1b2c3d4e5f6a1b2c3d4e5f6a1b2''"
    by (simp add: Values_Get_def)
  have h1: "Method ?r = http_MethodGet" "ParseForm ?r = None"
    by (simp_all add: http_MethodGet_def)
  have h2: "nonce_40_lower_hex (Values_Get (URL_Query ?r) ''nonce'')"
    by (simp only: q example_nonce_40_valid)
  have h3: "hex_DecodeString (Values_Get (URL_Query ?r) ''nonce'') = Inr ?raw"
    by (simp only: q example_nonce_40_decoded)
  have h4: "attest ?dev ?raw [9, 9] [] [] = (Inr [0x66, 0x6f, 0x6f, 0x62], ?tr')"
    by (simp add: attest_def attest_send_def attest_deferred_def nsm_answering_def)
  show ?thesis
    using handler_success_body [OF h1 h2 h3 h4]
    by (simp only: base64_test_vectors)
qed

text \<open>
  C7: for a GET request whose nonce passes the checks of the handler (it matches
  \<^verbatim>\<open>nonceRegExp\<close> and \<^verbatim>\<open>hex.DecodeString\<close> accepts it), the nonce of the request
  sent to the device is the hexadecimal decoding of the query parameter.  Decoding
  undoes encoding: if the parameter is the encoding of \<open>x\<close>, the bytes passed are \<open>x\<close>;
  and a parameter of 40 lower-case digits gives 20 bytes whose encoding is the
  parameter.
\<close>

theorem handler_nonce_hex_decoded:
  assumes "Method r = http_MethodGet" "ParseForm r = None"
    and "nonceRegExp_matches (Values_Get (URL_Query r) ''nonce'')"
    and "hex_DecodeString (Values_Get (URL_Query r) ''nonce'') = Inr rawNonce"
  shows "sent (snd (getAttestationHandler dev certHash w r tr)) =
           sent tr @ (case nsm_OpenDefaultSession dev tr of
                        None \<Rightarrow> [\<lparr>Nonce = rawNonce, UserData = certHash, PublicKey = []\<rparr>]
                      | Some _ \<Rightarrow> []) \<and>
         (\<forall>x. Values_Get (URL_Query r) ''nonce'' = hex_EncodeToString x \<longrightarrow> rawNonce = x) \<and>
         (nonce_40_lower_hex (Values_Get (URL_Query r) ''nonce'') \<longrightarrow>
            length rawNonce = 20 \<and>
            hex_EncodeToString rawNonce = Values_Get (URL_Query r) ''nonce'')"
proof (intro conjI)
  have "snd (getAttestationHandler dev certHash w r tr) = snd (attest dev rawNonce certHash [] tr)"
    using assms by (simp add: handler_accepts split: prod.splits sum.splits)
  then show "sent (snd (getAttestationHandler dev certHash w r tr)) =
           sent tr @ (case nsm_OpenDefaultSession dev tr of
                        None \<Rightarrow> [\<lparr>Nonce = rawNonce, UserData = certHash, PublicKey = []\<rparr>]
                      | Some _ \<Rightarrow> [])"
    by (cases "nsm_OpenDefaultSession dev tr")
       (simp_all add: attest_open_ok attest_open_fails attest_send_trace attest_deferred_trace
          sent_append split: option.splits)
  show "\<forall>x. Values_Get (URL_Query r) ''nonce'' = hex_EncodeToString x \<longrightarrow> rawNonce = x"
    using assms(4) by (auto simp: hex_roundtrip)
  show "nonce_40_lower_hex (Values_Get (URL_Query r) ''nonce'') \<longrightarrow>
           length rawNonce = 20 \<and>
           hex_EncodeToString rawNonce = Values_Get (URL_Query r) ''nonce''"
    using assms(4) nonce_40_lower_hex_accepted(3)[of "Values_Get (URL_Query r) ''nonce''"]
    by auto
qed

theorem handler_nonce_hex_decoded_witness:
  "sent (snd (getAttestationHandler
                (nsm_answering None (\<lparr>Error = [], Attestation = None\<rparr>, None) None)
                [9, 9] new_ResponseWriter
                \<lparr>Method = ''GET'', ParseForm = None,
                 URL_Query = [''nonce'' \<mapsto> [''a1b2c3d4e5f6a1b2c3d4e5f6a1b2c3d4e5f6a1b2'']]\<rparr>
                [])) =
     [\<lparr>Nonce = [0xa1, 0xb2, 0xc3, 0xd4, 0xe5, 0xf6, 0xa1, 0xb2, 0xc3, 0xd4,
                0xe5, 0xf6, 0xa1, 0xb2, 0xc3, 0xd4, 0xe5, 0xf6, 0xa1, 0xb2],
       UserData = [9, 9], PublicKey = []\<rparr>] \<and>
   hex_EncodeToString [0xa1, 0xb2, 0xc3, 0xd4, 0xe5, 0xf6, 0xa1, 0xb2, 0xc3, 0xd4,
                       0xe5, 0xf6, 0xa1, 0xb2, 0xc3, 0xd4, 0xe5, 0xf6, 0xa1, 0xb2] =
     ''a1b2c3d4e5f6a1b2c3d4e5f6a1b2c3d4e5f6a1b2''"
proof -
  let ?r = "\<lparr>Method = ''GET'', ParseForm = None,
       URL_Query = [''nonce'' \<mapsto> [''a1b2c3d4e5f6a1b2c3d4e5f6a1b2c3d4e5f6a1b2'']]\<rparr>"
  let ?dev = "nsm_answering None (\<lparr>Error = [], Attestation = None\<rparr>, None) None"
  let ?raw = "[0xa1, 0xb2, 0xc3, 0xd4, 0xe5, 0xf6, 0xa1, 0xb2, 0xc3, 0xd4,
               0xe5, 0xf6, 0xa1, 0xb2, 0xc3, 0xd4, 0xe5, 0xf6, 0xa1, 0xb2] :: bytes"
  have q: "Values_Get (URL_Query ?r) ''nonce'' = ''a1b2c3d4e5f6a1b2c3d4e5f6a1b2c3d4e5f6a1b2''"
    by (simp add: Values_Get_def)
  have h1: "Method ?r = http_MethodGet" "ParseForm ?r = None"
    by (simp_all add: http_MethodGet_def)
  have h2: "nonceRegExp_matches (Values_Get (URL_Query ?r) ''nonce'')"
    using example_nonce_40_valid by (simp only: q nonce_40_lower_hex_accepted(2))
  have h3: "hex_DecodeString (Values_Get (URL_Query ?r) ''nonce'') = Inr ?raw"
    by (simp only: q example_nonce_40_decoded)
  have v: "nonce_40_lower_hex (Values_Get (URL_Query ?r) ''nonce'')"
    by (simp only: q example_nonce_40_valid)
  have o: "nsm_OpenDefaultSession ?dev [] = None"
    by (simp add: nsm_answering_def)
  from handler_nonce_hex_decoded [OF h1 h2 h3, of ?dev "[9, 9]" new_ResponseWriter "[]"] v
  have "sent (snd (getAttestationHandler ?dev [9, 9] new_ResponseWriter ?r [])) =
          sent [] @ (case nsm_OpenDefaultSession ?dev [] of
                       None \<Rightarrow> [\<lparr>Nonce = ?raw, UserData = [9, 9], PublicKey = []\<rparr>]
                     | Some _ \<Rightarrow> [])"
    and "hex_EncodeToString ?raw = Values_Get (URL_Query ?r) ''nonce''"
    by blast+
  then show ?thesis by (simp only: o q) simp
qed

text \<open>
  C2: a nonce that is not exactly 40 lower-case hexadecimal digits is to be answered with
  status 400 without a call to the device.  The handler does not do so for a nonce
  that is longer than 40 digits: the pattern is not anchored, so a string of 42
  lower-case hexadecimal digits matches it, decodes to 21 bytes and reaches the
  device.  The request below is not of the 40-digit format, and yet it is answered with
  status 200 after a session was opened and the request sent.
\<close>

theorem handler_accepts_42_digit_nonce:
  "\<not> nonce_40_lower_hex ''aaaaaaaaaaaaaaaaaaaaaaaaaaaaaaaaaaaaaaaaaa'' \<and>
   getAttestationHandler
      (nsm_answering None
         (\<lparr>Error = [], Attestation = Some \<lparr>Document = Some [1, 2, 3]\<rparr>\<rparr>, None) None)
      [9, 9] new_ResponseWriter
      \<lparr>Method = ''GET'', ParseForm = None,
       URL_Query = [''nonce'' \<mapsto> [''aaaaaaaaaaaaaaaaaaaaaaaaaaaaaaaaaaaaaaaaaa'']]\<rparr> [] =
     (\<lparr>status = Some 200, body = ''AQID'' @ [CHR 0x0A]\<rparr>,
      [EvOpenDefaultSession,
       EvSend \<lparr>Nonce = replicate 21 0xaa, UserData = [9, 9], PublicKey = []\<rparr>,
       EvClose])"
proof -
  let ?r = "\<lparr>Method = ''GET'', ParseForm = None,
       URL_Query = [''nonce'' \<mapsto> [''aaaaaaaaaaaaaaaaaaaaaaaaaaaaaaaaaaaaaaaaaa'']]\<rparr>"
  let ?dev = "nsm_answering None
         (\<lparr>Error = [], Attestation = Some \<lparr>Document = Some [1, 2, 3]\<rparr>\<rparr>, None) None"
  have q: "Values_Get (URL_Query ?r) ''nonce'' = ''aaaaaaaaaaaaaaaaaaaaaaaaaaaaaaaaaaaaaaaaaa''"
    by (simp add: Values_Get_def)
  have h1: "nonceRegExp_matches (Values_Get (URL_Query ?r) ''nonce'')"
    by (simp only: q example_nonce_42_matches)
  have h2: "hex_DecodeString (Values_Get (URL_Query ?r) ''nonce'') = Inr (replicate 21 0xaa)"
    by (simp only: q example_nonce_42_decoded)
  have h3: "Method ?r = http_MethodGet" "ParseForm ?r = None"
    by (simp_all add: http_MethodGet_def)
  note acc = handler_accepts[OF h3 h1 h2, of ?dev "[9, 9]" new_ResponseWriter "[]"]
  have "\<not> nonce_40_lower_hex ''aaaaaaaaaaaaaaaaaaaaaaaaaaaaaaaaaaaaaaaaaa''"
    by (simp add: nonce_40_lower_hex_def)
  moreover have "getAttestationHandler ?dev [9, 9] new_ResponseWriter ?r [] =
     (\<lparr>status = Some 200, body = ''AQID'' @ [CHR 0x0A]\<rparr>,
      [EvOpenDefaultSession,
       EvSend \<lparr>Nonce = replicate 21 0xaa, UserData = [9, 9], PublicKey = []\<rparr>,
       EvClose])"
    by (simp only: acc)
       (simp add: attest_def attest_send_def attest_deferred_def
          nsm_answering_def fmt_Fprintln_new b64_digit_def encodeStd_def)
  ultimately show ?thesis by blast
qed

section \<open>The loop of setCertFingerprint\<close>

lemma setCertFingerprint_loop_leaf:
  "pem_blocks L rawData bs \<Longrightarrow> list_all2 (is_certificate L) bs cs \<Longrightarrow>
   find (\<lambda>c. \<not> IsCA c) cs = Some leaf \<Longrightarrow>
   setCertFingerprint_loop L (Some r) rawData e =
     Some (None, e\<lparr>certFpr := sha256_Sum256 L (Raw leaf)\<rparr>)"
proof (induction bs arbitrary: rawData cs)
  case Nil
  then show ?case by simp
next
  case (Cons b bs)
  from Cons.prems(2) obtain c cs' where cs: "cs = c # cs'" "is_certificate L b c"
    "list_all2 (is_certificate L) bs cs'" by (auto simp: list_all2_Cons1)
  from Cons.prems(1) have d: "fst (pem_Decode L rawData) = Some b"
    "pem_blocks L (snd (pem_Decode L rawData)) bs" by simp_all
  show ?case
  proof (cases "IsCA c")
    case True
    with Cons.prems(3) cs(1) have "find (\<lambda>c. \<not> IsCA c) cs' = Some leaf" by simp
    from Cons.IH[OF d(2) cs(3) this] show ?thesis
      using d(1) cs(2) True
      by (subst setCertFingerprint_loop.simps) (simp add: is_certificate_def)
  next
    case False
    with Cons.prems(3) cs(1) have "leaf = c" by simp
    then show ?thesis using d(1) cs(2) False
      by (subst setCertFingerprint_loop.simps) (simp add: is_certificate_def)
  qed
qed

lemma setCertFingerprint_loop_only_CA:
  "pem_blocks L rawData bs \<Longrightarrow> list_all2 (is_certificate L) bs cs \<Longrightarrow>
   list_all IsCA cs \<Longrightarrow>
   setCertFingerprint_loop L (Some r) rawData e = Some (Some errPemDecode, e)"
proof (induction bs arbitrary: rawData cs)
  case Nil
  then show ?case by (subst setCertFingerprint_loop.simps) simp
next
  case (Cons b bs)
  from Cons.prems(2) obtain c cs' where cs: "cs = c # cs'" "is_certificate L b c"
    "list_all2 (is_certificate L) bs cs'" by (auto simp: list_all2_Cons1)
  from Cons.prems(1) have d: "fst (pem_Decode L rawData) = Some b"
    "pem_blocks L (snd (pem_Decode L rawData)) bs" by simp_all
  from Cons.prems(3) cs(1) have ca: "IsCA c" "list_all IsCA cs'" by simp_all
  from Cons.IH[OF d(2) cs(3) ca(2)] show ?case
    using d(1) cs(2) ca(1)
    by (subst setCertFingerprint_loop.simps) (simp add: is_certificate_def)
qed

lemma setCertFingerprint_loop_frame:
  assumes "setCertFingerprint_loop L rest rawData e = Some re"
  shows "cfg (snd re) = cfg e \<and> httpSrv_TLSConfig (snd re) = httpSrv_TLSConfig e \<and>
         router (snd re) = router e"
  by (rule setCertFingerprint_loop.raw_induct
        [where P = "\<lambda>L rest rawData e re. cfg (snd re) = cfg e \<and>
            httpSrv_TLSConfig (snd re) = httpSrv_TLSConfig e \<and> router (snd re) = router e",
         OF _ assms])
     (auto split: if_splits option.splits sum.splits)

lemma setCertFingerprint_loop_skip:
  "fst (pem_Decode L rawData) = Some b \<Longrightarrow> Type b \<noteq> ''CERTIFICATE'' \<Longrightarrow>
   setCertFingerprint_loop L (Some r) rawData e =
     setCertFingerprint_loop L (Some r) (snd (pem_Decode L rawData)) e"
  by (subst setCertFingerprint_loop.simps) simp

lemma setCertFingerprint_frame:
  "setCertFingerprint L rawData e = Some (r, e') \<Longrightarrow>
     cfg e' = cfg e \<and> httpSrv_TLSConfig e' = httpSrv_TLSConfig e \<and> router e' = router e"
  unfolding setCertFingerprint_def by (drule setCertFingerprint_loop_frame) simp

lemma setupAcme_poller_frame:
  "setupAcme_poller L answers e = Some e' \<Longrightarrow>
     cfg e' = cfg e \<and> httpSrv_TLSConfig e' = httpSrv_TLSConfig e \<and> router e' = router e"
  by (auto simp: setupAcme_poller_def split: option.splits dest: setCertFingerprint_frame)

lemma Start_acme:
  assumes "UseACME (cfg e)" "Start L S dev e = Some (Inr e1)"
  shows "e1 = e\<lparr>httpSrv_TLSConfig := Some (GetCertificate [FQDN (cfg e)]),
                router := router e @
                  [(http_MethodGet, ''/attestation'', getAttestationHandler dev (certFpr e))]\<rparr>"
  using assms
  by (auto simp: Start_def setupAcme_def Let_def split: option.splits if_splits)

lemma handler_sent:
  assumes "Method r = http_MethodGet" "ParseForm r = None"
    and "nonceRegExp_matches (Values_Get (URL_Query r) ''nonce'')"
    and "hex_DecodeString (Values_Get (URL_Query r) ''nonce'') = Inr rawNonce"
    and "nsm_OpenDefaultSession dev tr = None"
  shows "sent (snd (getAttestationHandler dev certHash w r tr)) =
           sent tr @ [\<lparr>Nonce = rawNonce, UserData = certHash, PublicKey = []\<rparr>]"
proof -
  have "snd (getAttestationHandler dev certHash w r tr) = snd (attest dev rawNonce certHash [] tr)"
    using assms(1-4) by (simp add: handler_accepts split: prod.splits sum.splits)
  then show ?thesis using assms(5)
    by (simp add: attest_open_ok attest_send_trace attest_deferred_trace sent_append
        split: option.splits)
qed

lemma setCertFingerprint_single:
  "fst (pem_Decode L p) = Some \<lparr>Type = ''CERTIFICATE'', Bytes = der\<rparr> \<Longrightarrow>
   x509_ParseCertificate L der = Inr c \<Longrightarrow> \<not> IsCA c \<Longrightarrow>
   setCertFingerprint L p e = Some (None, e\<lparr>certFpr := sha256_Sum256 L (Raw c)\<rparr>)"
  unfolding setCertFingerprint_def by (subst setCertFingerprint_loop.simps) simp

lemma genSelfSignedCert_fingerprint:
  assumes g: "genSelfSignedCert L S e = Some (None, e')"
    and enc: "\<forall>der p. pem_EncodeToMemory S \<lparr>Type = ''CERTIFICATE'', Bytes = der\<rparr> = Some p \<longrightarrow>
                fst (pem_Decode L p) = Some \<lparr>Type = ''CERTIFICATE'', Bytes = der\<rparr>"
    and cre: "\<forall>t k der. x509_CreateCertificate S t k = Inr der \<longrightarrow>
                (\<exists>c. x509_ParseCertificate L der = Inr c \<and> Raw c = der \<and> IsCA c = template_IsCA t)"
    and kp: "\<forall>certPEM keyPEM c. tls_X509KeyPair S certPEM keyPEM = Inr c \<longrightarrow>
                (\<exists>b. fst (pem_Decode L certPEM) = Some b \<and> Certificate c = [Bytes b])"
  shows "\<exists>c der. httpSrv_TLSConfig e' = Some (Certificates [c]) \<and> Certificate c = [der] \<and>
           certFpr e' = sha256_Sum256 L der \<and> router e' = router e"
proof -
  from g obtain privateKey serialNumber derBytes pemCert ef privBytes pemKey cert t where
    t: "t = \<lparr>SerialNumber = serialNumber, Organization = [certificateOrg],
             DNSNames = [FQDN (cfg e)], NotBefore = time_Now S,
             NotAfter = time_Now S + certificateValidity,
             BasicConstraintsValid = True, template_IsCA = False\<rparr>"
    and cr: "x509_CreateCertificate S t privateKey = Inr derBytes"
    and pe: "pem_EncodeToMemory S \<lparr>Type = ''CERTIFICATE'', Bytes = derBytes\<rparr> = Some pemCert"
    and fp: "setCertFingerprint L pemCert e = Some (None, ef)"
    and pair: "tls_X509KeyPair S pemCert pemKey = Inr cert"
    and e': "e' = ef\<lparr>httpSrv_TLSConfig := Some (Certificates [cert])\<rparr>"
    by (auto simp: genSelfSignedCert_def split: sum.splits option.splits prod.splits)
  from cre cr t obtain c where c: "x509_ParseCertificate L derBytes = Inr c"
    "Raw c = derBytes" "\<not> IsCA c" by fastforce
  from enc pe have d: "fst (pem_Decode L pemCert) = Some \<lparr>Type = ''CERTIFICATE'', Bytes = derBytes\<rparr>" by blast
  from setCertFingerprint_single[OF d c(1) c(3), of e] fp c(2)
  have ef: "ef = e\<lparr>certFpr := sha256_Sum256 L derBytes\<rparr>" by simp
  from kp pair d have "Certificate cert = [derBytes]" by fastforce
  with e' ef show ?thesis by simp
qed

lemma Start_self_signed:
  assumes "\<not> UseACME (cfg e)" and s: "Start L S dev e = Some (Inr e1)"
    and enc: "\<forall>der p. pem_EncodeToMemory S \<lparr>Type = ''CERTIFICATE'', Bytes = der\<rparr> = Some p \<longrightarrow>
                fst (pem_Decode L p) = Some \<lparr>Type = ''CERTIFICATE'', Bytes = der\<rparr>"
    and cre: "\<forall>t k der. x509_CreateCertificate S t k = Inr der \<longrightarrow>
                (\<exists>c. x509_ParseCertificate L der = Inr c \<and> Raw c = der \<and> IsCA c = template_IsCA t)"
    and kp: "\<forall>certPEM keyPEM c. tls_X509KeyPair S certPEM keyPEM = Inr c \<longrightarrow>
                (\<exists>b. fst (pem_Decode L certPEM) = Some b \<and> Certificate c = [Bytes b])"
  shows "\<exists>c der. httpSrv_TLSConfig e1 = Some (Certificates [c]) \<and> Certificate c = [der] \<and>
           router e1 = router e @
             [(http_MethodGet, ''/attestation'', getAttestationHandler dev (sha256_Sum256 L der))]"
proof -
  from assms(1) s obtain e' where g: "genSelfSignedCert L S e = Some (None, e')"
    and e1: "e1 = e'\<lparr>router := router e' @
                [(http_MethodGet, ''/attestation'', getAttestationHandler dev (certFpr e'))]\<rparr>"
    by (auto simp: Start_def Let_def split: option.splits if_splits prod.splits)
  from genSelfSignedCert_fingerprint[OF g enc cre kp] e1 show ?thesis by auto
qed

section \<open>Runs on the toy library\<close>

lemma toy_example_blocks:
  "pem_blocks toy_crypto [1, 2, 1, 7, 1, 2, 0, 9, 1, 2, 1, 8]
     [\<lparr>Type = ''CERTIFICATE'', Bytes = [1, 7]\<rparr>, \<lparr>Type = ''CERTIFICATE'', Bytes = [0, 9]\<rparr>,
      \<lparr>Type = ''CERTIFICATE'', Bytes = [1, 8]\<rparr>]"
  by (simp add: toy_crypto_def)

lemma toy_example_certificates:
  "list_all2 (is_certificate toy_crypto)
     [\<lparr>Type = ''CERTIFICATE'', Bytes = [1, 7]\<rparr>, \<lparr>Type = ''CERTIFICATE'', Bytes = [0, 9]\<rparr>,
      \<lparr>Type = ''CERTIFICATE'', Bytes = [1, 8]\<rparr>]
     [\<lparr>Raw = [1, 7], IsCA = True\<rparr>, \<lparr>Raw = [0, 9], IsCA = False\<rparr>, \<lparr>Raw = [1, 8], IsCA = True\<rparr>]"
  by (simp add: is_certificate_def toy_crypto_def toy_x509_ParseCertificate_def)

lemma toy_CA_blocks:
  "pem_blocks toy_crypto [1, 2, 1, 7] [\<lparr>Type = ''CERTIFICATE'', Bytes = [1, 7]\<rparr>]"
  "list_all2 (is_certificate toy_crypto) [\<lparr>Type = ''CERTIFICATE'', Bytes = [1, 7]\<rparr>]
     [\<lparr>Raw = [1, 7], IsCA = True\<rparr>]"
  "list_all IsCA [\<lparr>Raw = [1, 7], IsCA = True\<rparr>]"
  by (simp_all add: toy_crypto_def is_certificate_def toy_x509_ParseCertificate_def)

lemma toy_library_coherent:
  "\<forall>der p. pem_EncodeToMemory toy_sys \<lparr>Type = ''CERTIFICATE'', Bytes = der\<rparr> = Some p \<longrightarrow>
      fst (pem_Decode toy_crypto p) = Some \<lparr>Type = ''CERTIFICATE'', Bytes = der\<rparr>"
  "\<forall>t k der. x509_CreateCertificate toy_sys t k = Inr der \<longrightarrow>
      (\<exists>c. x509_ParseCertificate toy_crypto der = Inr c \<and> Raw c = der \<and> IsCA c = template_IsCA t)"
  "\<forall>certPEM keyPEM c. tls_X509KeyPair toy_sys certPEM keyPEM = Inr c \<longrightarrow>
      (\<exists>b. fst (pem_Decode toy_crypto certPEM) = Some b \<and> Certificate c = [Bytes b])"
proof -
  show "\<forall>der p. pem_EncodeToMemory toy_sys \<lparr>Type = ''CERTIFICATE'', Bytes = der\<rparr> = Some p \<longrightarrow>
      fst (pem_Decode toy_crypto p) = Some \<lparr>Type = ''CERTIFICATE'', Bytes = der\<rparr>"
    by (auto simp: toy_sys_def toy_crypto_def toy_pem_EncodeToMemory_def unat_of_nat
        split: if_splits)
  show "\<forall>t k der. x509_CreateCertificate toy_sys t k = Inr der \<longrightarrow>
      (\<exists>c. x509_ParseCertificate toy_crypto der = Inr c \<and> Raw c = der \<and> IsCA c = template_IsCA t)"
    by (auto simp: toy_sys_def toy_crypto_def toy_x509_ParseCertificate_def)
  show "\<forall>certPEM keyPEM c. tls_X509KeyPair toy_sys certPEM keyPEM = Inr c \<longrightarrow>
      (\<exists>b. fst (pem_Decode toy_crypto certPEM) = Some b \<and> Certificate c = [Bytes b])"
    by (auto simp: toy_sys_def toy_crypto_def toy_tls_X509KeyPair_def split: option.splits)
qed

lemma toy_self_signed_run:
  "Start toy_crypto toy_sys dev (NewEnclave (toy_Config False)) =
     Some (Inr ((NewEnclave (toy_Config False))
       \<lparr>httpSrv_TLSConfig :=
           Some (Certificates [\<lparr>Certificate = [[0, 5, 5]], PrivateKey = [2, 2, 4, 2]\<rparr>]),
        router := [(http_MethodGet, ''/attestation'',
                    getAttestationHandler dev ([0, 5, 5] @ replicate 29 0xff))],
        certFpr := [0, 5, 5] @ replicate 29 0xff\<rparr>))"
proof -
  have f: "setCertFingerprint toy_crypto [1, 3, 0, 5, 5] e =
      Some (None, e\<lparr>certFpr := sha256_Sum256 toy_crypto (Raw \<lparr>Raw = [0, 5, 5], IsCA = False\<rparr>)\<rparr>)" for e
    by (rule setCertFingerprint_single[where der = "[0, 5, 5]"])
       (simp_all add: toy_crypto_def toy_x509_ParseCertificate_def)
  have h: "sha256_Sum256 toy_crypto [0, 5, 5] = [0, 5, 5] @ replicate 29 0xff"
    by (simp add: toy_crypto_def toy_sha256_Sum256_def)
  have g: "genSelfSignedCert toy_crypto toy_sys e =
     Some (None, e\<lparr>certFpr := [0, 5, 5] @ replicate 29 0xff,
                   httpSrv_TLSConfig :=
                     Some (Certificates [\<lparr>Certificate = [[0, 5, 5]], PrivateKey = [2, 2, 4, 2]\<rparr>])\<rparr>)" for e
    by (simp add: genSelfSignedCert_def toy_sys_def toy_pem_EncodeToMemory_def f h
        toy_tls_X509KeyPair_def)
  have s: "seedEntropyPool toy_sys = None" "assignLoAddr toy_sys = None"
    "os_Setenv toy_sys = (\<lambda>_ _. None)" "vsock_Listen toy_sys = (\<lambda>_. None)"
    by (simp_all add: toy_sys_def)
  show ?thesis
    by (simp add: Start_def g s toy_Config_def NewEnclave_def Let_def)
qed

lemma toy_acme_run:
  "Start_then_poll toy_crypto toy_sys dev
     [Inl (errors_New ''acme/autocert: certificate cache miss''), Inr [2, 1, 3, 1, 2, 0, 9]]
     (NewEnclave (toy_Config True)) =
   Some ((NewEnclave (toy_Config True))
          \<lparr>httpSrv_TLSConfig := Some (GetCertificate [''example.test'']),
           router := [(http_MethodGet, ''/attestation'', getAttestationHandler dev (replicate 32 0))],
           certFpr := [0, 9] @ replicate 30 0xff\<rparr>)"
proof -
  have d1: "pem_Decode toy_crypto [2, 1, 3, 1, 2, 0, 9] =
     (Some \<lparr>Type = ''PRIVATE KEY'', Bytes = [3]\<rparr>, [1, 2, 0, 9])"
    by (simp add: toy_crypto_def)
  have b: "pem_blocks toy_crypto [1, 2, 0, 9] [\<lparr>Type = ''CERTIFICATE'', Bytes = [0, 9]\<rparr>]"
    by (simp add: toy_crypto_def)
  have c: "list_all2 (is_certificate toy_crypto) [\<lparr>Type = ''CERTIFICATE'', Bytes = [0, 9]\<rparr>]
     [\<lparr>Raw = [0, 9], IsCA = False\<rparr>]"
    by (simp add: is_certificate_def toy_crypto_def toy_x509_ParseCertificate_def)
  have l: "setCertFingerprint_loop toy_crypto (Some []) [1, 2, 0, 9] e =
      Some (None, e\<lparr>certFpr := sha256_Sum256 toy_crypto (Raw \<lparr>Raw = [0, 9], IsCA = False\<rparr>)\<rparr>)"
    for e by (rule setCertFingerprint_loop_leaf[OF b c]) simp
  have h: "sha256_Sum256 toy_crypto (Raw \<lparr>Raw = [0, 9], IsCA = False\<rparr>) = [0, 9] @ replicate 30 0xff"
    by (simp add: toy_crypto_def toy_sha256_Sum256_def)
  have k: "setCertFingerprint_loop toy_crypto (Some []) [2, 1, 3, 1, 2, 0, 9] e =
      setCertFingerprint_loop toy_crypto (Some []) (snd (pem_Decode toy_crypto [2, 1, 3, 1, 2, 0, 9])) e"
    for e by (rule setCertFingerprint_loop_skip[where b = "\<lparr>Type = ''PRIVATE KEY'', Bytes = [3]\<rparr>"])
      (simp_all add: d1)
  have f: "setCertFingerprint toy_crypto [2, 1, 3, 1, 2, 0, 9] e =
      Some (None, e\<lparr>certFpr := [0, 9] @ replicate 30 0xff\<rparr>)" for e
    unfolding setCertFingerprint_def by (simp only: k d1 snd_conv l h)
  show ?thesis
    by (simp add: Start_then_poll_def Start_def setupAcme_def setupAcme_poller_def f
        toy_sys_def toy_Config_def NewEnclave_def Let_def)
qed

section \<open>Properties of the fingerprint\<close>

text \<open>
  C5: for a buffer that holds a sequence of valid PEM-encoded certificates of which at
  least one is not a CA, \<^verbatim>\<open>setCertFingerprint\<close> returns without an error and sets
  the fingerprint to the SHA-256 digest of the DER bytes of the first certificate that
  is not a CA, wherever the CA certificates stand in the buffer.
\<close>

theorem setCertFingerprint_first_non_CA:
  assumes "pem_blocks L rawData bs"
    and "list_all2 (is_certificate L) bs cs"
    and "find (\<lambda>c. \<not> IsCA c) cs = Some leaf"
  shows "setCertFingerprint L rawData e =
           Some (None, e\<lparr>certFpr := sha256_Sum256 L (Raw leaf)\<rparr>)"
  unfolding setCertFingerprint_def using assms by (rule setCertFingerprint_loop_leaf)

theorem setCertFingerprint_first_non_CA_witness:
  "setCertFingerprint toy_crypto [1, 2, 1, 7, 1, 2, 0, 9, 1, 2, 1, 8]
     (NewEnclave (toy_Config False)) =
     Some (None, (NewEnclave (toy_Config False))\<lparr>certFpr := [0, 9] @ replicate 30 0xff\<rparr>)"
  using setCertFingerprint_first_non_CA
          [OF toy_example_blocks toy_example_certificates,
           of "\<lparr>Raw = [0, 9], IsCA = False\<rparr>" "NewEnclave (toy_Config False)"]
  by (simp add: toy_crypto_def toy_sha256_Sum256_def)

text \<open>
  C6: a buffer without any PEM block (the empty list of blocks below) makes
  \<^verbatim>\<open>setCertFingerprint\<close> fail with the error of a failed decoding.  A buffer that
  holds CA certificates only is to give a separate outcome, "not found", which is not
  an error; the code returns the same error for it: after the last block the next
  decoding finds nothing.  The \<^verbatim>\<open>return nil\<close> after the loop is never reached,
  because the loop tests the outer \<^verbatim>\<open>rest\<close>, which the body never assigns.
\<close>

theorem setCertFingerprint_only_CA_fails:
  assumes "pem_blocks L rawData bs"
    and "list_all2 (is_certificate L) bs cs"
    and "list_all IsCA cs"
  shows "setCertFingerprint L rawData e = Some (Some errPemDecode, e)"
  unfolding setCertFingerprint_def using assms by (rule setCertFingerprint_loop_only_CA)

theorem setCertFingerprint_only_CA_fails_witness:
  "setCertFingerprint toy_crypto [1, 2, 1, 7] (NewEnclave (toy_Config False)) =
     Some (Some errPemDecode, NewEnclave (toy_Config False)) \<and>
   setCertFingerprint toy_crypto [] (NewEnclave (toy_Config False)) =
     Some (Some errPemDecode, NewEnclave (toy_Config False))"
  using setCertFingerprint_only_CA_fails [OF toy_CA_blocks, of "NewEnclave (toy_Config False)"]
        setCertFingerprint_only_CA_fails
          [of toy_crypto "[]" "[]" "[]" "NewEnclave (toy_Config False)"]
  by (simp add: toy_crypto_def)

text \<open>
  C1: the user data sent to the device is to be the SHA-256 fingerprint of the
  certificate that the TLS configuration serves, with a self-signed certificate and
  with one from ACME.  With a self-signed certificate the handler is registered after
  the fingerprint is set (\<open>Start_self_signed\<close>).  With ACME, \<^verbatim>\<open>Start\<close> registers
  the handler with the fingerprint as it is when \<^verbatim>\<open>setupAcme\<close> returns, which for a
  new enclave is 32 zero bytes; the goroutine sets \<^verbatim>\<open>e.certFpr\<close> later, and the
  handler, which holds a copy, does not see it.  Every accepted request is then
  attested with 32 zero bytes as user data, whatever certificate the manager serves.
\<close>

theorem acme_handler_sends_initial_fingerprint:
  assumes "UseACME c"
    and "Start_then_poll L S dev answers (NewEnclave c) = Some e2"
    and "Method r = http_MethodGet" "ParseForm r = None"
    and "nonceRegExp_matches (Values_Get (URL_Query r) ''nonce'')"
    and "hex_DecodeString (Values_Get (URL_Query r) ''nonce'') = Inr rawNonce"
    and "nsm_OpenDefaultSession dev tr = None"
  shows "httpSrv_TLSConfig e2 = Some (GetCertificate [FQDN c]) \<and>
         served e2 r tr =
           [(http_MethodGet, ''/attestation'',
             sent tr @ [\<lparr>Nonce = rawNonce, UserData = replicate 32 0, PublicKey = []\<rparr>])]"
proof -
  from assms(2) obtain e1 where e1: "Start L S dev (NewEnclave c) = Some (Inr e1)"
    and e2: "setupAcme_poller L answers e1 = Some e2"
    by (auto simp: Start_then_poll_def split: option.splits sum.splits)
  from assms(1) have "UseACME (cfg (NewEnclave c))" by (simp add: NewEnclave_def)
  from Start_acme[OF this e1] have
    "httpSrv_TLSConfig e1 = Some (GetCertificate [FQDN c])"
    "router e1 = [(http_MethodGet, ''/attestation'', getAttestationHandler dev (replicate 32 0))]"
    by (simp_all add: NewEnclave_def)
  with setupAcme_poller_frame[OF e2] have
    "httpSrv_TLSConfig e2 = Some (GetCertificate [FQDN c])"
    "router e2 = [(http_MethodGet, ''/attestation'', getAttestationHandler dev (replicate 32 0))]"
    by simp_all
  then show ?thesis
    by (simp add: served_def handler_sent[OF assms(3-7)])
qed

theorem acme_handler_sends_initial_fingerprint_witness:
  "certFpr (the (Start_then_poll toy_crypto toy_sys
       (nsm_answering None (\<lparr>Error = [], Attestation = None\<rparr>, None) None)
       [Inl (errors_New ''acme/autocert: certificate cache miss''), Inr [2, 1, 3, 1, 2, 0, 9]]
       (NewEnclave (toy_Config True)))) = [0, 9] @ replicate 30 0xff \<and>
   served (the (Start_then_poll toy_crypto toy_sys
       (nsm_answering None (\<lparr>Error = [], Attestation = None\<rparr>, None) None)
       [Inl (errors_New ''acme/autocert: certificate cache miss''), Inr [2, 1, 3, 1, 2, 0, 9]]
       (NewEnclave (toy_Config True))))
     \<lparr>Method = ''GET'', ParseForm = None,
      URL_Query = [''nonce'' \<mapsto> [''a1b2c3d4e5f6a1b2c3d4e5f6a1b2c3d4e5f6a1b2'']]\<rparr> [] =
     [(''GET'', ''/attestation'',
       [\<lparr>Nonce = [0xa1, 0xb2, 0xc3, 0xd4, 0xe5, 0xf6, 0xa1, 0xb2, 0xc3, 0xd4,
                  0xe5, 0xf6, 0xa1, 0xb2, 0xc3, 0xd4, 0xe5, 0xf6, 0xa1, 0xb2],
         UserData = replicate 32 0, PublicKey = []\<rparr>])]"
proof -
  let ?r = "\<lparr>Method = ''GET'', ParseForm = None,
       URL_Query = [''nonce'' \<mapsto> [''a1b2c3d4e5f6a1b2c3d4e5f6a1b2c3d4e5f6a1b2'']]\<rparr>"
  let ?dev = "nsm_answering None (\<lparr>Error = [], Attestation = None\<rparr>, None) None"
  let ?raw = "[0xa1, 0xb2, 0xc3, 0xd4, 0xe5, 0xf6, 0xa1, 0xb2, 0xc3, 0xd4,
               0xe5, 0xf6, 0xa1, 0xb2, 0xc3, 0xd4, 0xe5, 0xf6, 0xa1, 0xb2] :: bytes"
  have q: "Values_Get (URL_Query ?r) ''nonce'' = ''a1b2c3d4e5f6a1b2c3d4e5f6a1b2c3d4e5f6a1b2''"
    by (simp add: Values_Get_def)
  have h1: "Method ?r = http_MethodGet" "ParseForm ?r = None"
    by (simp_all add: http_MethodGet_def)
  have h2: "nonceRegExp_matches (Values_Get (URL_Query ?r) ''nonce'')"
    using example_nonce_40_valid by (simp only: q nonce_40_lower_hex_accepted(2))
  have h3: "hex_DecodeString (Values_Get (URL_Query ?r) ''nonce'') = Inr ?raw"
    by (simp only: q example_nonce_40_decoded)
  have o: "nsm_OpenDefaultSession ?dev [] = None"
    by (simp add: nsm_answering_def)
  have u: "UseACME (toy_Config True)" by (simp add: toy_Config_def)
  note run = toy_acme_run[of ?dev]
  from acme_handler_sends_initial_fingerprint [OF u run h1 h2 h3 o]
  show ?thesis by (simp only: run option.sel) (simp add: http_MethodGet_def)
qed

end
